theory Spec2Isabelle
  imports Complex_Main
begin

section \<open>Values shared by all request handlers\<close>

text \<open>
  Request and response bodies are JSON. A JavaScript number that is finite and a value
  of a \<open>Decimal\<close> column are both modelled as rationals; the rounding of floating-point
  arithmetic is not modelled.
\<close>

datatype json =
    JNull
  | JBool bool
  | JNum rat
  | JStr string
  | JArr "json list"
  | JObj "(string \<times> json) list"

text \<open>JavaScript truthiness of a JSON value (\<open>if (details)\<close>, \<open>if (adminNotes)\<close>).\<close>

fun truthy :: "json \<Rightarrow> bool" where
  "truthy JNull = False"
| "truthy (JBool b) = b"
| "truthy (JNum n) = (n \<noteq> 0)"
| "truthy (JStr s) = (s \<noteq> [])"
| "truthy (JArr _) = True"
| "truthy (JObj _) = True"

text \<open>\<open>!v\<close>.\<close>

definition falsy :: "json \<Rightarrow> bool" where
  "falsy v \<longleftrightarrow> \<not> truthy v"

fun isString :: "json \<Rightarrow> bool" where
  "isString (JStr _) = True"
| "isString _ = False"

text \<open>
  Messages are Portuguese. A HOL character is a byte, so the letters outside ASCII are
  written as their UTF-8 bytes.
\<close>

abbreviation (input) a_acute :: string where "a_acute \<equiv> [CHR 0xC3, CHR 0xA1]"
abbreviation (input) a_tilde :: string where "a_tilde \<equiv> [CHR 0xC3, CHR 0xA3]"
abbreviation (input) c_cedil :: string where "c_cedil \<equiv> [CHR 0xC3, CHR 0xA7]"
abbreviation (input) e_acute :: string where "e_acute \<equiv> [CHR 0xC3, CHR 0xA9]"
abbreviation (input) e_circ :: string where "e_circ \<equiv> [CHR 0xC3, CHR 0xAA]"
abbreviation (input) i_acute :: string where "i_acute \<equiv> [CHR 0xC3, CHR 0xAD]"
abbreviation (input) o_acute :: string where "o_acute \<equiv> [CHR 0xC3, CHR 0xB3]"
abbreviation (input) o_tilde :: string where "o_tilde \<equiv> [CHR 0xC3, CHR 0xB5]"
abbreviation (input) u_acute :: string where "u_acute \<equiv> [CHR 0xC3, CHR 0xBA]"

subsection \<open>Thrown values\<close>

text \<open>
  What \<open>instanceof\<close> can tell about a thrown value. \<open>PlainObject\<close> is the object
  literal thrown by \<open>validate\<close>, which is no \<open>Error\<close> instance.
\<close>

datatype error_class =
    Error
  | SyntaxError
  | PrismaClientKnownRequestError
  | PrismaClientValidationError
  | PrismaClientInitializationError
  | PlainObject

text \<open>
  The properties of a thrown value that \<open>errorHandler\<close> reads. The value is an object,
  as the parameter type \<open>AppError | Error\<close> says. \<open>statusCode = None\<close>
  means the property is absent; \<open>has_body\<close> is \<open>'body' in error\<close>; \<open>meta_target\<close> is
  \<open>error.meta?.target\<close>. The text of a stack trace is not modelled: an error made by
  \<open>new Error\<close> carries the empty trace.
\<close>

record js_error =
  proto :: error_class
  name :: string
  message :: string
  statusCode :: "int option"
  code :: "string option"
  has_body :: bool
  meta_target :: "json option"
  stack :: "string option"

type_synonym 'a result = "js_error + 'a"

definition createError :: "string \<Rightarrow> int \<Rightarrow> js_error" where
  "createError msg sc =
     \<lparr>proto = Error, name = ''Error'', message = msg, statusCode = Some sc, code = None,
      has_body = False, meta_target = None, stack = Some []\<rparr>"

text \<open>\<open>new Error(msg)\<close>: an error without a status code.\<close>

definition newError :: "string \<Rightarrow> js_error" where
  "newError msg =
     \<lparr>proto = Error, name = ''Error'', message = msg, statusCode = None, code = None,
      has_body = False, meta_target = None, stack = Some []\<rparr>"

text \<open>
  A \<open>TypeError\<close> raised by the runtime, as when a property of \<open>null\<close> is read.
\<close>

definition typeError :: "string \<Rightarrow> js_error" where
  "typeError msg =
     \<lparr>proto = Error, name = ''TypeError'', message = msg, statusCode = None, code = None,
      has_body = False, meta_target = None, stack = Some []\<rparr>"

text \<open>
  The error the Prisma client raises when the database refuses a statement: \<open>P2002\<close> for
  a unique constraint (with the violated columns as target), \<open>P2025\<close> for an update whose
  row does not exist.
\<close>

definition prismaKnownError :: "string \<Rightarrow> json option \<Rightarrow> js_error" where
  "prismaKnownError c target =
     \<lparr>proto = PrismaClientKnownRequestError, name = ''PrismaClientKnownRequestError'',
      message = [], statusCode = None, code = Some c, has_body = False,
      meta_target = target, stack = Some []\<rparr>"

text \<open>The error of the Prisma client for a value that does not fit the column's type.\<close>

definition prismaValidationError :: js_error where
  "prismaValidationError =
     \<lparr>proto = PrismaClientValidationError, name = ''PrismaClientValidationError'',
      message = [], statusCode = None, code = None, has_body = False,
      meta_target = None, stack = Some []\<rparr>"

text \<open>The object thrown by \<open>validate\<close> (utils/validation.ts) when the schema rejects.\<close>

definition validationError :: js_error where
  "validationError =
     \<lparr>proto = PlainObject, name = ''ValidationError'',
      message = ''Dados de entrada inv'' @ a_acute @ ''lidos'', statusCode = None,
      code = None, has_body = False, meta_target = None, stack = None\<rparr>"

subsection \<open>middleware/errorHandler.ts\<close>

record http_response =
  http_status :: int
  http_body :: json

text \<open>
  The three locals of \<open>errorHandler\<close> after the chain of tests: \<open>statusCode\<close>,
  \<open>message\<close> and \<open>details\<close> (\<open>None\<close> is \<open>null\<close>).
\<close>

definition multerMessage :: "string option \<Rightarrow> string" where
  "multerMessage c =
     (if c = Some ''LIMIT_FILE_SIZE'' then ''Arquivo muito grande.''
      else if c = Some ''LIMIT_FILE_COUNT'' then ''Muitos arquivos enviados.''
      else if c = Some ''LIMIT_UNEXPECTED_FILE'' then ''Campo de arquivo inesperado.''
      else ''Erro no upload do arquivo.'')"

definition classify :: "js_error \<Rightarrow> int \<times> string \<times> json option" where
  "classify e =
     (if (case statusCode e of None \<Rightarrow> False | Some sc \<Rightarrow> sc \<noteq> 0)
      then (the (statusCode e), message e, None)
      else if proto e = PrismaClientKnownRequestError then
        (if code e = Some ''P2002'' then
           (409, ''Dados duplicados. Este registro j'' @ a_acute @ '' existe.'',
            Some (JObj (case meta_target e of None \<Rightarrow> [] | Some t \<Rightarrow> [(''field'', t)])))
         else if code e = Some ''P2025'' then
           (404, ''Registro n'' @ a_tilde @ ''o encontrado.'', None)
         else if code e = Some ''P2003'' then
           (400, ''Viola'' @ c_cedil @ a_tilde @ ''o de chave estrangeira.'', None)
         else if code e = Some ''P2014'' then
           (400, ''Dados inv'' @ a_acute @ ''lidos fornecidos.'', None)
         else (400, ''Erro de banco de dados.'', None))
      else if proto e = PrismaClientValidationError then
        (400, ''Dados de entrada inv'' @ a_acute @ ''lidos.'', None)
      else if proto e = PrismaClientInitializationError then
        (503, ''Erro de conex'' @ a_tilde @ ''o com o banco de dados.'', None)
      else if proto e = SyntaxError \<and> has_body e then
        (400, ''JSON inv'' @ a_acute @ ''lido fornecido.'', None)
      else if name e = ''ValidationError'' then
        (400, ''Dados de entrada inv'' @ a_acute @ ''lidos.'', Some (JStr (message e)))
      else if name e = ''JsonWebTokenError'' then
        (401, ''Token inv'' @ a_acute @ ''lido.'', None)
      else if name e = ''TokenExpiredError'' then
        (401, ''Token expirado.'', None)
      else if name e = ''MulterError'' then
        (400, multerMessage (code e), None)
      else (500, ''Erro interno do servidor'', None))"

text \<open>
  The keys added to \<open>errorResponse.error\<close> when \<open>NODE_ENV\<close> is \<open>development\<close>. A key
  whose value is \<open>undefined\<close> does not reach the serialised body.
\<close>

definition developmentKeys :: "js_error \<Rightarrow> json option \<Rightarrow> (string \<times> json) list" where
  "developmentKeys e details =
     (case stack e of None \<Rightarrow> [] | Some s \<Rightarrow> [(''stack'', JStr s)]) @
     (case details of
        None \<Rightarrow> []
      | Some d \<Rightarrow> if truthy d then [(''details'', d)] else [])"

definition errorHandler :: "string option \<Rightarrow> js_error \<Rightarrow> http_response" where
  "errorHandler NODE_ENV e =
     (case classify e of (sc, msg, details) \<Rightarrow>
        \<lparr>http_status = sc,
         http_body = JObj
           [(''success'', JBool False),
            (''error'', JObj
               ([(''message'', JStr msg), (''statusCode'', JNum (of_int sc))] @
                (if NODE_ENV = Some ''development'' then developmentKeys e details else [])))]\<rparr>)"

text \<open>
  The classes of errors that the handler recognises, in the words of the specification:
  an application error with a status code, the three Prisma classes, a JSON syntax
  error, a validation error, the two JWT errors and a multer error.
\<close>

definition recognized :: "js_error \<Rightarrow> bool" where
  "recognized e \<longleftrightarrow>
     (case statusCode e of None \<Rightarrow> False | Some sc \<Rightarrow> sc \<noteq> 0)
     \<or> proto e = PrismaClientKnownRequestError
     \<or> proto e = PrismaClientValidationError
     \<or> proto e = PrismaClientInitializationError
     \<or> (proto e = SyntaxError \<and> has_body e)
     \<or> name e = ''ValidationError''
     \<or> name e = ''JsonWebTokenError''
     \<or> name e = ''TokenExpiredError''
     \<or> name e = ''MulterError''"

text \<open>
  A handler either throws or answers. \<open>failsWith r sc\<close>: the handler threw, and
  \<open>errorHandler\<close> answers the thrown value with HTTP status \<open>sc\<close> (the status does not
  depend on \<open>NODE_ENV\<close>).
\<close>

definition failsWith :: "'a result \<Rightarrow> int \<Rightarrow> bool" where
  "failsWith r sc = (case r of Inl e \<Rightarrow> http_status (errorHandler None e) = sc | Inr _ \<Rightarrow> False)"

section \<open>prisma/schema.prisma\<close>

text \<open>
  One record per model, one list per table, rows in insertion order. Columns that no
  modelled operation reads or writes (OAuth ids, Stripe ids, most timestamps) are left
  out. \<open>DateTime\<close> is milliseconds since the epoch, except a birth date, of which
  only the calendar fields are read. A \<open>Decimal\<close> column holds a rational. The primary
  keys and the unique columns are enforced where a modelled statement could violate them.
\<close>

datatype withdrawal_status = W_PENDING | W_APPROVED | W_PROCESSING | W_PAID | W_REJECTED | W_CANCELED
datatype commission_status = C_PENDING | C_AVAILABLE | C_REQUESTED | C_PAID | C_CANCELED
datatype subscription_status = S_PENDING | S_ACTIVE | S_PAST_DUE | S_CANCELED | S_UNPAID
datatype order_status =
  O_PENDING | O_CONFIRMED | O_PROCESSING | O_SHIPPED | O_DELIVERED | O_CANCELED | O_REFUNDED
datatype payment_status = P_PENDING | P_PROCESSING | P_PAID | P_FAILED | P_REFUNDED | P_CANCELED
datatype payment_method = CREDIT_CARD | DEBIT_CARD | PIX | BOLETO | COMMISSION_BALANCE
datatype coupon_type = PERCENTAGE | FIXED_AMOUNT

record date =
  year :: int
  month :: int
  day :: int

record user =
  u_id :: string
  u_email :: string
  u_cpf :: string
  u_firstName :: string
  u_lastName :: string
  u_phone :: "string option"
  u_birthDate :: "date option"
  u_password :: "string option"
  u_emailVerified :: bool
  u_isActive :: bool
  u_referralCode :: string
  u_referredById :: "string option"

record address =
  a_id :: string
  a_userId :: string
  street :: string
  number :: string
  complement :: "string option"
  neighborhood :: string
  city :: string
  state :: string
  zipCode :: string
  country :: string

record bank_data =
  bd_id :: string
  bd_userId :: string
  bankCode :: string
  bankName :: string
  agency :: string
  account :: string
  accountType :: string
  holderName :: string
  holderCpf :: string
  pixKey :: "string option"
  pixKeyType :: "string option"

record subscription =
  sub_id :: string
  sub_userId :: string
  sub_planId :: string
  sub_status :: subscription_status

record billing_history =
  bh_id :: string
  bh_subscriptionId :: string
  bh_amount :: rat
  bh_createdAt :: int

record commission =
  cm_id :: string
  cm_earnerId :: string
  cm_sourceId :: string
  cm_amount :: rat
  cm_percentage :: rat
  cm_status :: commission_status

record withdrawal_request =
  wr_id :: string
  wr_userId :: string
  wr_amount :: rat
  wr_status :: withdrawal_status
  wr_bankData :: json
  wr_requestedAt :: int
  wr_processedAt :: "int option"
  wr_paidAt :: "int option"
  wr_adminNotes :: "string option"
  wr_createdAt :: int
  wr_updatedAt :: int

record product =
  p_id :: string
  p_name :: string
  p_price :: rat
  p_stock :: int
  p_trackStock :: bool
  p_isActive :: bool

record order_item =
  oi_productId :: string
  oi_quantity :: int
  oi_price :: rat

record order =
  o_id :: string
  o_userId :: string
  o_orderNumber :: string
  o_subtotal :: rat
  o_shippingCost :: rat
  o_discount :: rat
  o_total :: rat
  o_status :: order_status
  o_paymentStatus :: payment_status
  o_paymentMethod :: payment_method
  o_shippingAddress :: json
  o_couponCode :: "string option"
  o_items :: "order_item list"
  o_createdAt :: int

record coupon =
  cp_id :: string
  cp_code :: string
  cp_name :: string
  cp_type :: coupon_type
  cp_value :: rat
  cp_minimumAmount :: "rat option"
  cp_maximumDiscount :: "rat option"
  cp_startDate :: int
  cp_endDate :: int
  cp_usageLimitPerUser :: "int option"
  cp_isActive :: bool

record user_coupon =
  uc_id :: string
  uc_userId :: string
  uc_couponId :: string
  uc_usageCount :: int

text \<open>
  Modelled from the spec: the Prisma models \<open>UserConsent\<close>, \<open>DataSubjectRequest\<close> and
  \<open>AuditLog\<close> are used by \<open>LGPDService\<close> and \<open>AuditService\<close> but are missing from
  schema.prisma. Their columns are the ones the calls in utils/validation.ts write, and
  the fields of the interface \<open>DataSubjectRequest\<close> declared there.
\<close>

datatype dsr_type = ACCESS | RECTIFICATION | ERASURE | PORTABILITY | RESTRICTION | OBJECTION
datatype dsr_status = D_PENDING | D_IN_PROGRESS | D_COMPLETED | D_REJECTED

record user_consent =
  uco_id :: string
  uco_userId :: string
  uco_consentType :: string
  uco_granted :: bool

record data_subject_request =
  dsr_id :: string
  dsr_userId :: string
  dsr_type :: dsr_type
  dsr_status :: dsr_status
  dsr_requestedAt :: int
  dsr_processedAt :: "int option"
  dsr_adminId :: "string option"
  dsr_adminNotes :: "string option"

record audit_log =
  al_userId :: "string option"
  al_adminId :: "string option"
  al_eventType :: string
  al_entity :: "string option"
  al_entityId :: "string option"
  al_metadata :: json
  al_timestamp :: int

record db =
  users :: "user list"
  addresses :: "address list"
  bankData :: "bank_data list"
  subscriptions :: "subscription list"
  billingHistory :: "billing_history list"
  commissions :: "commission list"
  withdrawalRequests :: "withdrawal_request list"
  products :: "product list"
  orders :: "order list"
  coupons :: "coupon list"
  userCoupons :: "user_coupon list"
  userConsents :: "user_consent list"
  dataSubjectRequests :: "data_subject_request list"
  auditLogs :: "audit_log list"

definition emptyDb :: db where
  "emptyDb =
     \<lparr>users = [], addresses = [], bankData = [], subscriptions = [], billingHistory = [],
      commissions = [], withdrawalRequests = [], products = [], orders = [], coupons = [],
      userCoupons = [], userConsents = [], dataSubjectRequests = [], auditLogs = []\<rparr>"

text \<open>JSON of an optional string: \<open>null\<close> when absent.\<close>

definition jstr_opt :: "string option \<Rightarrow> json" where
  "jstr_opt s = (case s of None \<Rightarrow> JNull | Some v \<Rightarrow> JStr v)"

section \<open>src/unnamed/part_001: POST /api/commissions/withdraw\<close>

subsection \<open>The comparisons of the handler\<close>

text \<open>
  \<open>amount\<close> is \<open>req.body.amount\<close>, which no schema checks: it is any JSON value (a
  missing property is read as \<open>null\<close>; both are falsy). The handler compares it with
  \<open>0\<close>, with \<open>minWithdrawal\<close> and with \<open>balance\<close> by the relational operators of
  JavaScript, which first convert their operands. A number of the runtime is a finite
  number, one of the infinities or \<open>NaN\<close>; a comparison with \<open>NaN\<close> is false.
\<close>

datatype js_number = NaN | MinusInfinity | Finite rat | PlusInfinity

fun numLess :: "js_number \<Rightarrow> js_number \<Rightarrow> bool" where
  "numLess (Finite a) (Finite b) = (a < b)"
| "numLess (Finite a) PlusInfinity = True"
| "numLess MinusInfinity (Finite b) = True"
| "numLess MinusInfinity PlusInfinity = True"
| "numLess _ _ = False"

text \<open>\<open>x <= y\<close> on numbers: not \<open>y < x\<close>, and false when one of them is \<open>NaN\<close>.\<close>

definition numLessEq :: "js_number \<Rightarrow> js_number \<Rightarrow> bool" where
  "numLessEq x y \<longleftrightarrow> x \<noteq> NaN \<and> y \<noteq> NaN \<and> \<not> numLess y x"

text \<open>
  Two strings are compared by their code units, here the bytes of the string (the two
  orders agree on ASCII text).
\<close>

fun strLess :: "string \<Rightarrow> string \<Rightarrow> bool" where
  "strLess [] [] = False"
| "strLess [] (y # ys) = True"
| "strLess (x # xs) [] = False"
| "strLess (x # xs) (y # ys) = ((of_char x :: nat) < of_char y \<or> (x = y \<and> strLess xs ys))"

text \<open>
  The conversions that the runtime and the libraries perform are parameters of the
  handler: \<open>stringToNumber\<close> is \<open>ToNumber\<close> on a string, \<open>numberToString\<close> the text of a
  number in a template literal, \<open>objectToString\<close> the \<open>toString\<close> of an array or an
  object, \<open>decimalValueOf\<close> is \<open>Decimal.prototype.valueOf\<close> of the decimal library (it
  returns a string), and \<open>stringToDecimal\<close> reads a string passed for a \<open>Decimal\<close>
  column (\<open>None\<close> when the Prisma client refuses it).
\<close>

record runtime =
  stringToNumber :: "string \<Rightarrow> js_number"
  numberToString :: "js_number \<Rightarrow> string"
  objectToString :: "json \<Rightarrow> string"
  decimalValueOf :: "rat \<Rightarrow> string"
  stringToDecimal :: "string \<Rightarrow> rat option"

text \<open>
  \<open>ToPrimitive\<close> leaves \<open>null\<close>, a boolean, a number and a string alone and turns
  an array or an object into a string. \<open>primitiveString\<close> is that string when the primitive
  is one; \<open>toNumber\<close> is \<open>ToNumber\<close> of the primitive.
\<close>

fun primitiveString :: "runtime \<Rightarrow> json \<Rightarrow> string option" where
  "primitiveString rt (JStr s) = Some s"
| "primitiveString rt (JArr xs) = Some (objectToString rt (JArr xs))"
| "primitiveString rt (JObj kvs) = Some (objectToString rt (JObj kvs))"
| "primitiveString rt _ = None"

fun toNumber :: "runtime \<Rightarrow> json \<Rightarrow> js_number" where
  "toNumber rt JNull = Finite 0"
| "toNumber rt (JBool b) = Finite (if b then 1 else 0)"
| "toNumber rt (JNum n) = Finite n"
| "toNumber rt (JStr s) = stringToNumber rt s"
| "toNumber rt (JArr xs) = stringToNumber rt (objectToString rt (JArr xs))"
| "toNumber rt (JObj kvs) = stringToNumber rt (objectToString rt (JObj kvs))"

text \<open>
  \<open>Number(process.env.MIN_WITHDRAWAL_AMOUNT || 50)\<close>: the variable is a string, and an
  unset or empty one gives 50.
\<close>

definition minWithdrawal :: "runtime \<Rightarrow> string option \<Rightarrow> js_number" where
  "minWithdrawal rt MIN_WITHDRAWAL_AMOUNT =
     (case MIN_WITHDRAWAL_AMOUNT of
        None \<Rightarrow> Finite 50
      | Some s \<Rightarrow> if s = [] then Finite 50 else stringToNumber rt s)"

text \<open>
  The user's commissions with status AVAILABLE, and the number that \<open>balance\<close> stands
  for: the aggregate \<open>_sum.amount\<close> over them, \<open>|| 0\<close> when there is none.
\<close>

definition availableCommissions :: "db \<Rightarrow> string \<Rightarrow> commission list" where
  "availableCommissions d userId =
     filter (\<lambda>c. cm_earnerId c = userId \<and> cm_status c = C_AVAILABLE) (commissions d)"

definition availableBalance :: "db \<Rightarrow> string \<Rightarrow> rat" where
  "availableBalance d userId = sum_list (map cm_amount (availableCommissions d userId))"

text \<open>
  \<open>amount > balance\<close>. Without a commission the aggregate is \<open>null\<close> and \<open>balance\<close> is
  the number 0, so the comparison is one of numbers. Otherwise \<open>balance\<close> is a
  \<open>Decimal\<close> object, which is truthy whatever its value and whose primitive is the
  string \<open>valueOf\<close> returns: against a number, a boolean or \<open>null\<close> that string is
  converted to the number it denotes and the comparison is one of numbers, but against a
  string (or an array or object, whose primitive is a string) the two strings are
  compared as strings.
\<close>

definition greaterThanBalance :: "runtime \<Rightarrow> json \<Rightarrow> db \<Rightarrow> string \<Rightarrow> bool" where
  "greaterThanBalance rt amount d userId =
     (if availableCommissions d userId = [] then numLess (Finite 0) (toNumber rt amount)
      else
        (case primitiveString rt amount of
           Some s \<Rightarrow> strLess (decimalValueOf rt (availableBalance d userId)) s
         | None \<Rightarrow> numLess (Finite (availableBalance d userId)) (toNumber rt amount)))"

subsection \<open>The insert\<close>

text \<open>
  The column \<open>amount\<close> is \<open>Decimal @db.Decimal(10, 2)\<close>. The Prisma client takes a
  number or a string that denotes a decimal and refuses every other value; the database
  rounds the value to two decimal places, half away from zero, and refuses a value that
  then needs more than eight digits before the point.
\<close>

definition decimalInput :: "runtime \<Rightarrow> json \<Rightarrow> rat option" where
  "decimalInput rt amount =
     (case amount of JNum n \<Rightarrow> Some n | JStr s \<Rightarrow> stringToDecimal rt s | _ \<Rightarrow> None)"

definition roundScale2 :: "rat \<Rightarrow> rat" where
  "roundScale2 v =
     (if 0 \<le> v then of_int \<lfloor>v * 100 + 1 / 2\<rfloor> / 100
      else - (of_int \<lfloor>- v * 100 + 1 / 2\<rfloor> / 100))"

definition fitsDecimal_10_2 :: "rat \<Rightarrow> bool" where
  "fitsDecimal_10_2 v \<longleftrightarrow> \<bar>roundScale2 v\<bar> < 10 ^ 8"

text \<open>The statuses the handler's \<open>findFirst\<close> looks for: a request still open.\<close>

definition nonTerminal :: "withdrawal_status \<Rightarrow> bool" where
  "nonTerminal s \<longleftrightarrow> s \<in> set [W_PENDING, W_APPROVED, W_PROCESSING]"

text \<open>The object stored in the \<open>bankData\<close> Json column of the new request.\<close>

definition bankSnapshot :: "bank_data \<Rightarrow> json" where
  "bankSnapshot b =
     JObj [(''bankCode'', JStr (bankCode b)),
           (''bankName'', JStr (bankName b)),
           (''agency'', JStr (agency b)),
           (''account'', JStr (account b)),
           (''accountType'', JStr (accountType b)),
           (''holderName'', JStr (holderName b)),
           (''holderCpf'', JStr (holderCpf b)),
           (''pixKey'', jstr_opt (pixKey b)),
           (''pixKeyType'', jstr_opt (pixKeyType b))]"

subsection \<open>The handler\<close>

text \<open>
  The handler, after \<open>authenticate\<close> has set \<open>req.user\<close>. \<open>MIN_WITHDRAWAL_AMOUNT\<close> is
  the environment variable (\<open>None\<close> when unset), \<open>cuid\<close> the id generated for the new
  row and \<open>now\<close> the clock. The insert is refused by the client for a value that is no
  decimal, and by the database for a value out of the column's range (\<open>P2020\<close>) or an id
  that is already taken (\<open>P2002\<close>). The row returned is the row as stored.
\<close>

definition withdraw ::
  "runtime \<Rightarrow> string option \<Rightarrow> string \<Rightarrow> int \<Rightarrow> db \<Rightarrow> string \<Rightarrow> json
   \<Rightarrow> db \<times> withdrawal_request result" where
  "withdraw rt MIN_WITHDRAWAL_AMOUNT cuid now d userId amount =
     (if falsy amount \<or> numLessEq (toNumber rt amount) (Finite 0) then
        (d, Inl (createError (''Valor inv'' @ a_acute @ ''lido para saque'') 400))
      else if numLess (toNumber rt amount) (minWithdrawal rt MIN_WITHDRAWAL_AMOUNT) then
        (d, Inl (createError
           (''Valor m'' @ i_acute @ ''nimo para saque '' @ e_acute @ '' R$ ''
            @ numberToString rt (minWithdrawal rt MIN_WITHDRAWAL_AMOUNT)) 400))
      else if greaterThanBalance rt amount d userId then
        (d, Inl (createError ''Saldo insuficiente'' 400))
      else
        (case find (\<lambda>b. bd_userId b = userId) (bankData d) of
           None \<Rightarrow>
             (d, Inl (createError
                (''Dados banc'' @ a_acute @ ''rios n'' @ a_tilde @ ''o cadastrados'') 400))
         | Some b \<Rightarrow>
             (case find (\<lambda>w. wr_userId w = userId \<and> nonTerminal (wr_status w))
                        (withdrawalRequests d) of
                Some pendingWithdrawal \<Rightarrow>
                  (d, Inl (createError
                     (''Voc'' @ e_circ @ '' j'' @ a_acute @ '' possui uma solicita'' @ c_cedil
                      @ a_tilde @ ''o de saque pendente'') 400))
              | None \<Rightarrow>
                  (case decimalInput rt amount of
                     None \<Rightarrow> (d, Inl prismaValidationError)
                   | Some v \<Rightarrow>
                       (let withdrawalRequest =
                          \<lparr>wr_id = cuid, wr_userId = userId, wr_amount = roundScale2 v,
                           wr_status = W_PENDING, wr_bankData = bankSnapshot b,
                           wr_requestedAt = now, wr_processedAt = None, wr_paidAt = None,
                           wr_adminNotes = None, wr_createdAt = now, wr_updatedAt = now\<rparr>
                        in if \<not> fitsDecimal_10_2 v then
                             (d, Inl (prismaKnownError ''P2020'' None))
                           else if cuid \<in> set (map wr_id (withdrawalRequests d)) then
                             (d, Inl (prismaKnownError ''P2002'' (Some (JArr [JStr ''id'']))))
                           else
                             (d\<lparr>withdrawalRequests :=
                                  withdrawalRequests d @ [withdrawalRequest]\<rparr>,
                              Inr withdrawalRequest))))))"

section \<open>src/unnamed/part_002: PATCH /api/admin/withdrawals/:id\<close>

text \<open>
  \<open>status\<close> and \<open>adminNotes\<close> come from the request body unvalidated, so they are any
  JSON value. After the test of \<open>status\<close> and the lookup of the row, the handler builds
  \<open>updateData\<close> and calls \<open>prisma.withdrawalRequest.update\<close> with
  \<open>include: { user: ... }\<close>. The model \<open>WithdrawalRequest\<close> of schema.prisma has the
  column \<open>userId\<close> but no relation \<open>user\<close>, so the Prisma client refuses the call with
  a \<open>PrismaClientValidationError\<close> before any statement reaches the database: whatever
  \<open>updateData\<close> holds, no row is written.
\<close>

definition updateWithdrawal ::
  "int \<Rightarrow> db \<Rightarrow> string \<Rightarrow> json \<Rightarrow> json \<Rightarrow> db \<times> withdrawal_request result" where
  "updateWithdrawal now d withdrawalId status adminNotes =
     (if status \<notin> set [JStr ''APPROVED'', JStr ''REJECTED'', JStr ''PAID''] then
        (d, Inl (createError (''Status inv'' @ a_acute @ ''lido'') 400))
      else
        (case find (\<lambda>w. wr_id w = withdrawalId) (withdrawalRequests d) of
           None \<Rightarrow>
             (d, Inl (createError
                (''Solicita'' @ c_cedil @ a_tilde @ ''o de saque n'' @ a_tilde
                 @ ''o encontrada'') 404))
         | Some withdrawal \<Rightarrow> (d, Inl prismaValidationError)))"

subsection \<open>Sequences of requests\<close>

text \<open>
  The two routes whose handlers write to the table of withdrawal requests, each request
  with the values its handler reads, and the database after a sequence of them, served
  one after the other. A request that throws leaves the database as it was.
\<close>

datatype request =
    PostWithdraw string int string json
  | PatchWithdrawal int string json json

fun serve :: "runtime \<Rightarrow> string option \<Rightarrow> db \<Rightarrow> request \<Rightarrow> db" where
  "serve rt MIN_WITHDRAWAL_AMOUNT d (PostWithdraw cuid now userId amount) =
     fst (withdraw rt MIN_WITHDRAWAL_AMOUNT cuid now d userId amount)"
| "serve rt MIN_WITHDRAWAL_AMOUNT d (PatchWithdrawal now withdrawalId st adminNotes) =
     fst (updateWithdrawal now d withdrawalId st adminNotes)"

definition run :: "runtime \<Rightarrow> string option \<Rightarrow> db \<Rightarrow> request list \<Rightarrow> db" where
  "run rt MIN_WITHDRAWAL_AMOUNT d rs = foldl (serve rt MIN_WITHDRAWAL_AMOUNT) d rs"

text \<open>
  The invariant of the data model: no user has two requests that are still open.
\<close>

definition openRequests :: "withdrawal_request list \<Rightarrow> string \<Rightarrow> withdrawal_request list" where
  "openRequests ws userId = filter (\<lambda>w. wr_userId w = userId \<and> nonTerminal (wr_status w)) ws"

definition oneOpenPerUser :: "withdrawal_request list \<Rightarrow> bool" where
  "oneOpenPerUser ws \<longleftrightarrow> list_all (\<lambda>w. length (openRequests ws (wr_userId w)) \<le> 1) ws"

section \<open>routes/coupon.ts and the order routes of src/unnamed/part_002\<close>

text \<open>
  \<open>coupon.usageLimitPerUser || 1\<close>: the column is \<open>Int?\<close>, and \<open>||\<close> replaces
  \<open>null\<close> as well as 0.
\<close>

definition usageLimit :: "coupon \<Rightarrow> int" where
  "usageLimit c =
     (case cp_usageLimitPerUser c of None \<Rightarrow> 1 | Some n \<Rightarrow> if n = 0 then 1 else n)"

text \<open>
  The block \<open>// Calcular desconto\<close>, which both handlers contain word for word. A
  \<open>Decimal\<close> object is truthy, so \<open>coupon.maximumDiscount &&\<close> asks whether the
  column is set.
\<close>

definition computeDiscount :: "coupon \<Rightarrow> rat \<Rightarrow> rat" where
  "computeDiscount c base =
     (if cp_type c = PERCENTAGE then
        (let discount = (base * cp_value c) / 100
         in case cp_maximumDiscount c of
              None \<Rightarrow> discount
            | Some m \<Rightarrow> if discount > m then m else discount)
      else cp_value c)"

text \<open>The coupon both handlers look for: the given code, active, and valid now.\<close>

definition findValidCoupon :: "int \<Rightarrow> db \<Rightarrow> string \<Rightarrow> coupon option" where
  "findValidCoupon now d c =
     find (\<lambda>cp. cp_code cp = c \<and> cp_isActive cp \<and> cp_startDate cp \<le> now \<and> cp_endDate cp \<ge> now)
          (coupons d)"

definition findUserCoupon :: "db \<Rightarrow> string \<Rightarrow> string \<Rightarrow> user_coupon option" where
  "findUserCoupon d userId couponId =
     find (\<lambda>uc. uc_userId uc = userId \<and> uc_couponId uc = couponId) (userCoupons d)"

subsection \<open>POST /api/coupons/validate\<close>

record coupon_reply =
  cr_code :: string
  cr_name :: string
  cr_type :: coupon_type
  cr_value :: rat
  cr_discount :: rat

text \<open>
  \<open>c\<close> is \<open>code\<close> of the body (\<open>None\<close> when missing) and \<open>cartTotal\<close> its number.
  \<open>toUpperCase\<close> is \<open>String.prototype.toUpperCase\<close>, a function of the runtime and
  so a parameter of the handler. The handler only reads the database.
\<close>

definition validateCoupon ::
  "(string \<Rightarrow> string) \<Rightarrow> (rat \<Rightarrow> string) \<Rightarrow> int \<Rightarrow> db \<Rightarrow> string \<Rightarrow> string option \<Rightarrow> rat
   \<Rightarrow> coupon_reply result" where
  "validateCoupon toUpperCase fmt now d userId c cartTotal =
     (if c = None \<or> c = Some [] then
        Inl (createError (''C'' @ o_acute @ ''digo do cupom '' @ e_acute @ '' obrigat''
                          @ o_acute @ ''rio'') 400)
      else
        (case findValidCoupon now d (toUpperCase (the c)) of
           None \<Rightarrow> Inl (createError (''Cupom inv'' @ a_acute @ ''lido ou expirado'') 400)
         | Some coupon \<Rightarrow>
             (let usageCount =
                    (case findUserCoupon d userId (cp_id coupon) of
                       None \<Rightarrow> 0
                     | Some userCoupon \<Rightarrow> uc_usageCount userCoupon)
              in if usageCount \<ge> usageLimit coupon then
                   Inl (createError ''Limite de uso do cupom excedido'' 400)
                 else if (case cp_minimumAmount coupon of
                            None \<Rightarrow> False | Some m \<Rightarrow> cartTotal < m) then
                   Inl (createError
                     (''Valor m'' @ i_acute @ ''nimo para usar o cupom '' @ e_acute @ '' R$ ''
                      @ fmt (the (cp_minimumAmount coupon))) 400)
                 else
                   (let discount = computeDiscount coupon cartTotal
                    in Inr \<lparr>cr_code = cp_code coupon, cr_name = cp_name coupon,
                            cr_type = cp_type coupon, cr_value = cp_value coupon,
                            cr_discount = (if discount > cartTotal then cartTotal
                                           else discount)\<rparr>))))"

subsection \<open>POST /api/orders\<close>

definition paymentMethodOf :: "string \<Rightarrow> payment_method option" where
  "paymentMethodOf s =
     (if s = ''CREDIT_CARD'' then Some CREDIT_CARD
      else if s = ''DEBIT_CARD'' then Some DEBIT_CARD
      else if s = ''PIX'' then Some PIX
      else if s = ''BOLETO'' then Some BOLETO
      else if s = ''COMMISSION_BALANCE'' then Some COMMISSION_BALANCE
      else None)"

text \<open>
  The loop over the items of the body, each a product id and a quantity: it stops at the
  first item that throws, and otherwise returns the subtotal and the validated items.
\<close>

fun validateItems ::
  "db \<Rightarrow> rat \<Rightarrow> order_item list \<Rightarrow> (string \<times> int) list \<Rightarrow> (rat \<times> order_item list) result" where
  "validateItems d subtotal validatedItems [] = Inr (subtotal, validatedItems)"
| "validateItems d subtotal validatedItems ((productId, quantity) # items) =
     (case find (\<lambda>p. p_id p = productId \<and> p_isActive p) (products d) of
        None \<Rightarrow>
          Inl (createError (''Produto '' @ productId @ '' n'' @ a_tilde @ ''o encontrado'') 404)
      | Some product \<Rightarrow>
          if p_trackStock product \<and> p_stock product < quantity then
            Inl (createError (''Estoque insuficiente para '' @ p_name product) 400)
          else
            validateItems d (subtotal + p_price product * of_int quantity)
              (validatedItems @
                 [\<lparr>oi_productId = p_id product, oi_quantity = quantity,
                   oi_price = p_price product\<rparr>])
              items)"

text \<open>
  The block \<open>// Aplicar cupom se fornecido\<close>: the discount, or the error it throws.
  Here the code of the body is compared as it is, without \<open>toUpperCase\<close>, and a user
  without a \<open>UserCoupon\<close> row passes the usage test whatever the limit.
\<close>

definition applyCoupon ::
  "(rat \<Rightarrow> string) \<Rightarrow> int \<Rightarrow> db \<Rightarrow> string \<Rightarrow> string \<Rightarrow> rat \<Rightarrow> rat result" where
  "applyCoupon fmt now d userId couponCode subtotal =
     (case findValidCoupon now d couponCode of
        None \<Rightarrow> Inl (createError (''Cupom inv'' @ a_acute @ ''lido ou expirado'') 400)
      | Some coupon \<Rightarrow>
          if (case findUserCoupon d userId (cp_id coupon) of
                None \<Rightarrow> False
              | Some userCouponUsage \<Rightarrow> uc_usageCount userCouponUsage \<ge> usageLimit coupon) then
            Inl (createError ''Limite de uso do cupom excedido'' 400)
          else if (case cp_minimumAmount coupon of None \<Rightarrow> False | Some m \<Rightarrow> subtotal < m) then
            Inl (createError
              (''Valor m'' @ i_acute @ ''nimo para usar o cupom '' @ e_acute @ '' ''
               @ fmt (the (cp_minimumAmount coupon))) 400)
          else Inr (computeDiscount coupon subtotal))"

text \<open>
  \<open>prisma.userCoupon.upsert\<close> on the unique pair (userId, couponId): add one to the
  count of the row, or insert a row with count 1 under the generated id.
\<close>

definition upsertUserCoupon :: "string \<Rightarrow> db \<Rightarrow> string \<Rightarrow> string \<Rightarrow> db result" where
  "upsertUserCoupon cuid d userId couponId =
     (case findUserCoupon d userId couponId of
        Some _ \<Rightarrow>
          Inr (d\<lparr>userCoupons :=
                 map (\<lambda>uc. if uc_userId uc = userId \<and> uc_couponId uc = couponId
                            then uc\<lparr>uc_usageCount := uc_usageCount uc + 1\<rparr> else uc)
                     (userCoupons d)\<rparr>)
      | None \<Rightarrow>
          if cuid \<in> set (map uc_id (userCoupons d)) then
            Inl (prismaKnownError ''P2002'' (Some (JArr [JStr ''id''])))
          else
            Inr (d\<lparr>userCoupons := userCoupons d @
                   [\<lparr>uc_id = cuid, uc_userId = userId, uc_couponId = couponId,
                     uc_usageCount = 1\<rparr>]\<rparr>))"

text \<open>
  The block \<open>// Atualizar uso do cupom se aplicavel\<close>, run after the order \<open>order\<close>
  has been written to \<open>d1\<close>. The coupon is looked up again, by its code alone, and
  \<open>!.id\<close> on a missing coupon is a \<open>TypeError\<close>.
\<close>

definition recordCouponUse ::
  "string \<Rightarrow> db \<Rightarrow> string \<Rightarrow> string \<Rightarrow> order \<Rightarrow> db \<times> order result" where
  "recordCouponUse userCouponId d1 userId couponCode order =
     (case find (\<lambda>cp. cp_code cp = couponCode) (coupons d1) of
        None \<Rightarrow> (d1, Inl (typeError ''Cannot read properties of null (reading 'id')''))
      | Some cp \<Rightarrow>
          (case upsertUserCoupon userCouponId d1 userId (cp_id cp) of
             Inl e \<Rightarrow> (d1, Inl e)
           | Inr d2 \<Rightarrow> (d2, Inr order)))"

text \<open>
  The handler. \<open>items\<close> is the array of the body (a missing one counts as empty),
  \<open>shippingAddress\<close> any JSON value, \<open>paymentMethod\<close> and \<open>couponCode\<close> strings
  (\<open>None\<close> when missing). \<open>orderId\<close> and \<open>userCouponId\<close> are the generated ids,
  \<open>orderNumber\<close> the result of \<open>generateOrderNumber()\<close>. The order is written before
  the usage count: an error of the last step leaves the order in the table.
\<close>

definition createOrder ::
  "(rat \<Rightarrow> string) \<Rightarrow> int \<Rightarrow> string \<Rightarrow> string \<Rightarrow> string \<Rightarrow> db \<Rightarrow> string
   \<Rightarrow> (string \<times> int) list \<Rightarrow> json \<Rightarrow> string option \<Rightarrow> string option
   \<Rightarrow> db \<times> order result" where
  "createOrder fmt now orderId userCouponId orderNumber d userId items shippingAddress
               paymentMethod couponCode =
     (if items = [] then
        (d, Inl (createError (''Itens do pedido s'' @ a_tilde @ ''o obrigat'' @ o_acute
                              @ ''rios'') 400))
      else if \<not> truthy shippingAddress then
        (d, Inl (createError (''Endere'' @ c_cedil @ ''o de entrega '' @ e_acute
                              @ '' obrigat'' @ o_acute @ ''rio'') 400))
      else if paymentMethod = None \<or> paymentMethod = Some [] then
        (d, Inl (createError (''M'' @ e_acute @ ''todo de pagamento '' @ e_acute
                              @ '' obrigat'' @ o_acute @ ''rio'') 400))
      else
        (case validateItems d 0 [] items of
           Inl e \<Rightarrow> (d, Inl e)
         | Inr (subtotal, validatedItems) \<Rightarrow>
             (case (if couponCode = None \<or> couponCode = Some [] then Inr 0
                    else applyCoupon fmt now d userId (the couponCode) subtotal) of
                Inl e \<Rightarrow> (d, Inl e)
              | Inr discount \<Rightarrow>
                  (case paymentMethodOf (the paymentMethod) of
                     None \<Rightarrow> (d, Inl prismaValidationError)
                   | Some pm \<Rightarrow>
                       if orderId \<in> set (map o_id (orders d)) then
                         (d, Inl (prismaKnownError ''P2002'' (Some (JArr [JStr ''id'']))))
                       else if orderNumber \<in> set (map o_orderNumber (orders d)) then
                         (d, Inl (prismaKnownError ''P2002''
                                    (Some (JArr [JStr ''orderNumber'']))))
                       else
                         (let shippingCost = 0;
                              order =
                                \<lparr>o_id = orderId, o_userId = userId,
                                 o_orderNumber = orderNumber, o_subtotal = subtotal,
                                 o_shippingCost = shippingCost, o_discount = discount,
                                 o_total = subtotal + shippingCost - discount,
                                 o_status = O_PENDING, o_paymentStatus = P_PENDING,
                                 o_paymentMethod = pm, o_shippingAddress = shippingAddress,
                                 o_couponCode = couponCode, o_items = validatedItems,
                                 o_createdAt = now\<rparr>;
                              d1 = d\<lparr>orders := orders d @ [order]\<rparr>
                          in if couponCode = None \<or> couponCode = Some [] then (d1, Inr order)
                             else recordCouponUse userCouponId d1 userId (the couponCode)
                                    order)))))"

text \<open>
  A sequence of order requests of any users, run one after the other. A request that
  throws changes nothing more than it had written before the throw.
\<close>

record order_request =
  rq_now :: int
  rq_orderId :: string
  rq_userCouponId :: string
  rq_orderNumber :: string
  rq_userId :: string
  rq_items :: "(string \<times> int) list"
  rq_shippingAddress :: json
  rq_paymentMethod :: "string option"
  rq_couponCode :: "string option"

definition placeOrder :: "(rat \<Rightarrow> string) \<Rightarrow> db \<Rightarrow> order_request \<Rightarrow> db" where
  "placeOrder fmt d rq =
     fst (createOrder fmt (rq_now rq) (rq_orderId rq) (rq_userCouponId rq) (rq_orderNumber rq)
            d (rq_userId rq) (rq_items rq) (rq_shippingAddress rq) (rq_paymentMethod rq)
            (rq_couponCode rq))"

fun ordersRun :: "(rat \<Rightarrow> string) \<Rightarrow> db \<Rightarrow> order_request list \<Rightarrow> db" where
  "ordersRun fmt d [] = d"
| "ordersRun fmt d (rq # rqs) = ordersRun fmt (placeOrder fmt d rq) rqs"

subsection \<open>The usage ledger\<close>

text \<open>
  The count on record for a user and a coupon, 0 when there is no row; the limit in the
  words of the specification, 1 when the column is unset; and the invariant that no row
  counts more than the limit \<open>limitOf\<close> of its coupon.
\<close>

definition usageCountOf :: "db \<Rightarrow> string \<Rightarrow> string \<Rightarrow> int" where
  "usageCountOf d userId couponId =
     (case findUserCoupon d userId couponId of None \<Rightarrow> 0 | Some uc \<Rightarrow> uc_usageCount uc)"

definition limitAsStated :: "coupon \<Rightarrow> int" where
  "limitAsStated c = (case cp_usageLimitPerUser c of None \<Rightarrow> 1 | Some n \<Rightarrow> n)"

definition withinLimit :: "(coupon \<Rightarrow> int) \<Rightarrow> db \<Rightarrow> bool" where
  "withinLimit limitOf d \<longleftrightarrow>
     list_all (\<lambda>uc. list_all (\<lambda>c. cp_id c = uc_couponId uc \<longrightarrow> uc_usageCount uc \<le> limitOf c)
                              (coupons d))
              (userCoupons d)"

text \<open>
  The unique constraints of schema.prisma on the two tables (\<open>Coupon.id\<close>,
  \<open>Coupon.code\<close>, and the pair of \<open>UserCoupon\<close>), and coupons without a negative
  limit.
\<close>

definition couponConstraints :: "db \<Rightarrow> bool" where
  "couponConstraints d \<longleftrightarrow>
     distinct (map cp_id (coupons d))
     \<and> distinct (map cp_code (coupons d))
     \<and> distinct (map (\<lambda>uc. (uc_userId uc, uc_couponId uc)) (userCoupons d))"

definition limitsNonNegative :: "db \<Rightarrow> bool" where
  "limitsNonNegative d \<longleftrightarrow>
     list_all (\<lambda>c. case cp_usageLimitPerUser c of None \<Rightarrow> True | Some n \<Rightarrow> 0 \<le> n) (coupons d)"

definition ledgerInvariant :: "db \<Rightarrow> bool" where
  "ledgerInvariant d \<longleftrightarrow>
     couponConstraints d \<and> limitsNonNegative d \<and> withinLimit usageLimit d"

section \<open>LGPDService (utils/validation.ts)\<close>

record erase_check =
  allowed :: bool
  reason :: "string option"

text \<open>\<open>5 * 365 * 24 * 60 * 60 * 1000\<close>: the five years of the tax rule, in milliseconds.\<close>

definition fiveYears :: int where
  "fiveYears = 5 * 365 * 24 * 60 * 60 * 1000"

text \<open>
  The four queries of \<open>canEraseUserData\<close>. The orders of the last five years are
  fetched but decide nothing. A billing row belongs to the user through its
  subscription.
\<close>

definition activeSubscription :: "db \<Rightarrow> string \<Rightarrow> subscription option" where
  "activeSubscription d userId =
     find (\<lambda>s. sub_userId s = userId \<and> sub_status s = S_ACTIVE) (subscriptions d)"

definition recentOrders :: "int \<Rightarrow> db \<Rightarrow> string \<Rightarrow> order list" where
  "recentOrders now d userId =
     filter (\<lambda>ord. o_userId ord = userId \<and> o_createdAt ord \<ge> now - fiveYears) (orders d)"

definition pendingWithdrawals :: "db \<Rightarrow> string \<Rightarrow> withdrawal_request list" where
  "pendingWithdrawals d userId =
     filter (\<lambda>w. wr_userId w = userId
                 \<and> wr_status w \<in> set [W_PENDING, W_APPROVED, W_PROCESSING])
            (withdrawalRequests d)"

definition taxObligations :: "int \<Rightarrow> db \<Rightarrow> string \<Rightarrow> billing_history list" where
  "taxObligations now d userId =
     filter (\<lambda>b. list_ex (\<lambda>s. sub_id s = bh_subscriptionId b \<and> sub_userId s = userId)
                           (subscriptions d)
                 \<and> bh_createdAt b \<ge> now - fiveYears)
            (billingHistory d)"

definition canEraseUserData :: "int \<Rightarrow> db \<Rightarrow> string \<Rightarrow> erase_check" where
  "canEraseUserData now d userId =
     (if activeSubscription d userId \<noteq> None then
        \<lparr>allowed = False,
         reason = Some (''Usu'' @ a_acute @ ''rio possui assinatura ativa. Cancele a assinatura ''
                        @ ''antes de solicitar exclus'' @ a_tilde @ ''o.'')\<rparr>
      else if length (pendingWithdrawals d userId) > 0 then
        \<lparr>allowed = False,
         reason = Some (''Usu'' @ a_acute @ ''rio possui solicita'' @ c_cedil @ o_tilde
                        @ ''es de saque pendentes.'')\<rparr>
      else if length (taxObligations now d userId) > 0 then
        \<lparr>allowed = False,
         reason = Some (''Dados devem ser mantidos por 5 anos para fins fiscais conforme ''
                        @ ''legisla'' @ c_cedil @ a_tilde @ ''o brasileira.'')\<rparr>
      else \<lparr>allowed = True, reason = None\<rparr>)"

subsection \<open>anonymizeUserData\<close>

definition anonymizedEmail :: "string \<Rightarrow> string" where
  "anonymizedEmail userId = ''anonimizado_'' @ userId @ ''@example.com''"

definition anonymizedCpf :: string where
  "anonymizedCpf = ''00000000000''"

definition anonymize :: "user \<Rightarrow> user" where
  "anonymize u =
     u\<lparr>u_firstName := ''ANONIMIZADO'', u_lastName := ''ANONIMIZADO'',
       u_email := anonymizedEmail (u_id u), u_cpf := anonymizedCpf, u_phone := None,
       u_birthDate := None, u_isActive := False, u_emailVerified := False\<rparr>"

text \<open>
  \<open>prisma.user.update\<close> with the anonymised data. The row must exist (\<open>P2025\<close>),
  and the columns \<open>email\<close> and \<open>cpf\<close> are \<open>@unique\<close>: the database refuses the
  update when another row already holds the new value (\<open>P2002\<close>).
\<close>

definition updateUserAnonymized :: "string \<Rightarrow> db \<Rightarrow> db result" where
  "updateUserAnonymized userId d =
     (if find (\<lambda>u. u_id u = userId) (users d) = None then
        Inl (prismaKnownError ''P2025'' None)
      else if list_ex (\<lambda>u. u_id u \<noteq> userId \<and> u_email u = anonymizedEmail userId) (users d) then
        Inl (prismaKnownError ''P2002'' (Some (JArr [JStr ''email''])))
      else if list_ex (\<lambda>u. u_id u \<noteq> userId \<and> u_cpf u = anonymizedCpf) (users d) then
        Inl (prismaKnownError ''P2002'' (Some (JArr [JStr ''cpf''])))
      else
        Inr (d\<lparr>users := map (\<lambda>u. if u_id u = userId then anonymize u else u) (users d)\<rparr>))"

definition deleteAddresses :: "string \<Rightarrow> db \<Rightarrow> db result" where
  "deleteAddresses userId d =
     Inr (d\<lparr>addresses := filter (\<lambda>a. a_userId a \<noteq> userId) (addresses d)\<rparr>)"

definition deleteBankData :: "string \<Rightarrow> db \<Rightarrow> db result" where
  "deleteBankData userId d =
     Inr (d\<lparr>bankData := filter (\<lambda>b. bd_userId b \<noteq> userId) (bankData d)\<rparr>)"

definition deleteConsents :: "string \<Rightarrow> db \<Rightarrow> db result" where
  "deleteConsents userId d =
     Inr (d\<lparr>userConsents := filter (\<lambda>c. uco_userId c \<noteq> userId) (userConsents d)\<rparr>)"

text \<open>
  \<open>prisma.$transaction([...])\<close>: the statements run in order on the state the previous
  one left; the first error aborts, and then nothing of the transaction is kept.
\<close>

fun transaction :: "(db \<Rightarrow> db result) list \<Rightarrow> db \<Rightarrow> db result" where
  "transaction [] d = Inr d"
| "transaction (stmt # stmts) d =
     (case stmt d of Inl e \<Rightarrow> Inl e | Inr d' \<Rightarrow> transaction stmts d')"

definition anonymizeUserData :: "db \<Rightarrow> string \<Rightarrow> db result" where
  "anonymizeUserData d userId =
     transaction
       [updateUserAnonymized userId, deleteAddresses userId, deleteBankData userId,
        deleteConsents userId] d"

subsection \<open>processErasureRequest\<close>

definition createDataSubjectRequest ::
  "int \<Rightarrow> string \<Rightarrow> db \<Rightarrow> string \<Rightarrow> dsr_type \<Rightarrow> (db \<times> data_subject_request) result" where
  "createDataSubjectRequest now cuid d userId ty =
     (if cuid \<in> set (map dsr_id (dataSubjectRequests d)) then
        Inl (prismaKnownError ''P2002'' (Some (JArr [JStr ''id''])))
      else
        (let request =
               \<lparr>dsr_id = cuid, dsr_userId = userId, dsr_type = ty, dsr_status = D_PENDING,
                dsr_requestedAt = now, dsr_processedAt = None, dsr_adminId = None,
                dsr_adminNotes = None\<rparr>
         in Inr (d\<lparr>dataSubjectRequests := dataSubjectRequests d @ [request]\<rparr>, request)))"

text \<open>
  \<open>updateRequestStatus\<close>: \<open>processedAt\<close> is written for COMPLETED only, and notes
  that are \<open>undefined\<close> leave the column as it is.
\<close>

definition updateRequestStatus ::
  "int \<Rightarrow> db \<Rightarrow> string \<Rightarrow> dsr_status \<Rightarrow> string \<Rightarrow> string option \<Rightarrow> db result" where
  "updateRequestStatus now d requestId st adminId nts =
     (if find (\<lambda>r. dsr_id r = requestId) (dataSubjectRequests d) = None then
        Inl (prismaKnownError ''P2025'' None)
      else
        Inr (d\<lparr>dataSubjectRequests :=
               map (\<lambda>r. if dsr_id r = requestId
                         then r\<lparr>dsr_status := st,
                                dsr_processedAt :=
                                  (if st = D_COMPLETED then Some now else dsr_processedAt r),
                                dsr_adminId := Some adminId,
                                dsr_adminNotes :=
                                  (case nts of None \<Rightarrow> dsr_adminNotes r | Some n \<Rightarrow> Some n)\<rparr>
                         else r)
                   (dataSubjectRequests d)\<rparr>))"

text \<open>
  The entry \<open>AuditService.logEvent\<close> writes after a completed erasure. None of the
  keys of the metadata is one that \<open>maskSensitiveData\<close> masks; the clock stands for its
  ISO text. \<open>logEvent\<close> swallows its own errors, so it never changes the outcome.
\<close>

definition logErasure :: "int \<Rightarrow> db \<Rightarrow> string \<Rightarrow> string \<Rightarrow> string option \<Rightarrow> string \<Rightarrow> db" where
  "logErasure now d userId adminId rsn backupPath =
     d\<lparr>auditLogs := auditLogs d @
        [\<lparr>al_userId = Some userId, al_adminId = Some adminId,
          al_eventType = ''USER_DEACTIVATED'', al_entity = Some ''user'',
          al_entityId = Some userId,
          al_metadata = JObj ([(''requestType'', JStr ''ERASURE'')]
                              @ (case rsn of None \<Rightarrow> [] | Some t \<Rightarrow> [(''reason'', JStr t)])
                              @ [(''backupPath'', JStr backupPath),
                                 (''timestamp'', JNum (of_int now))]),
          al_timestamp = now\<rparr>]\<rparr>"

text \<open>
  The operation. \<open>cuid\<close> is the id generated for the request row and \<open>backupPath\<close>
  the file that \<open>BackupService.exportUserData\<close> returns; the export reads the database
  and writes a file, and failures of the file system are outside the model. Every error
  is rethrown by the \<open>catch\<close> block; what was written before it stays, except the
  statements of the transaction.
\<close>

definition processErasureRequest ::
  "int \<Rightarrow> string \<Rightarrow> string \<Rightarrow> db \<Rightarrow> string \<Rightarrow> string \<Rightarrow> string option \<Rightarrow> db \<times> unit result" where
  "processErasureRequest now cuid backupPath d userId adminId rsn =
     (case createDataSubjectRequest now cuid d userId ERASURE of
        Inl e \<Rightarrow> (d, Inl e)
      | Inr (d1, request) \<Rightarrow>
          (let canErase = canEraseUserData now d1 userId
           in if \<not> allowed canErase then
                (case updateRequestStatus now d1 (dsr_id request) D_REJECTED adminId
                        (reason canErase) of
                   Inl e \<Rightarrow> (d1, Inl e)
                 | Inr d2 \<Rightarrow>
                     (d2, Inl (newError (case reason canErase of None \<Rightarrow> [] | Some t \<Rightarrow> t))))
              else
                (case anonymizeUserData d1 userId of
                   Inl e \<Rightarrow> (d1, Inl e)
                 | Inr d2 \<Rightarrow>
                     (case updateRequestStatus now d2 (dsr_id request) D_COMPLETED adminId rsn of
                        Inl e \<Rightarrow> (d2, Inl e)
                      | Inr d3 \<Rightarrow>
                          (logErasure now d3 userId adminId rsn backupPath, Inr ())))))"

section \<open>routes/auth.ts: POST /register\<close>

text \<open>
  The body after \<open>validate(registerSchema, req.body)\<close>. What the Joi schema accepts
  (lengths, the format of e-mail and phone, the check digits of the CPF, the password
  pattern) is a parameter of the handler: \<open>joi\<close> below.
\<close>

record register_body =
  rb_firstName :: string
  rb_lastName :: string
  rb_email :: string
  rb_cpf :: string
  rb_phone :: "string option"
  rb_birthDate :: date
  rb_password :: string
  rb_referralCode :: "string option"

text \<open>utils/helpers.ts: \<open>calculateAge\<close> on the calendar fields, and \<open>isMinimumAge\<close>.\<close>

definition calculateAge :: "date \<Rightarrow> date \<Rightarrow> int" where
  "calculateAge today birth =
     (let age = year today - year birth;
          monthDiff = month today - month birth
      in if monthDiff < 0 \<or> (monthDiff = 0 \<and> day today < day birth) then age - 1 else age)"

definition isMinimumAge :: "date \<Rightarrow> date \<Rightarrow> bool" where
  "isMinimumAge today birthDate \<longleftrightarrow> calculateAge today birthDate \<ge> 18"

text \<open>\<open>cleanCPF\<close>: \<open>cpf.replace(/\D/g, '')\<close> keeps the digits.\<close>

definition cleanCPF :: "string \<Rightarrow> string" where
  "cleanCPF cpf = filter (\<lambda>c. 48 \<le> (of_char c :: nat) \<and> (of_char c :: nat) \<le> 57) cpf"

text \<open>
  The loop that draws referral codes until one is free. \<open>draws\<close> are the results of
  the successive calls of \<open>generateReferralCode()\<close>: \<open>None\<close> means that all of them
  were taken, so that the loop had not ended after these draws.
\<close>

fun pickReferralCode :: "db \<Rightarrow> string list \<Rightarrow> string option" where
  "pickReferralCode d [] = None"
| "pickReferralCode d (referralCode # draws) =
     (if find (\<lambda>u. u_referralCode u = referralCode) (users d) \<noteq> None
      then pickReferralCode d draws
      else Some referralCode)"

text \<open>
  The duplicate test: the first user with the e-mail or the CPF, and the error for it.
\<close>

definition duplicateError :: "db \<Rightarrow> string \<Rightarrow> string \<Rightarrow> js_error option" where
  "duplicateError d email cleanedCPF =
     (case find (\<lambda>u. u_email u = email \<or> u_cpf u = cleanedCPF) (users d) of
        None \<Rightarrow> None
      | Some existingUser \<Rightarrow>
          if u_email existingUser = email then
            Some (createError (''Este email j'' @ a_acute @ '' est'' @ a_acute
                               @ '' cadastrado'') 409)
          else if u_cpf existingUser = cleanedCPF then
            Some (createError (''Este CPF j'' @ a_acute @ '' est'' @ a_acute
                               @ '' cadastrado'') 409)
          else None)"

text \<open>
  The block \<open>// Verificar codigo de indicacao\<close>: \<open>referredById\<close>, or the
  error. A missing code and the empty string, which the schema allows, are both falsy.
  \<open>toUpperCase\<close> is \<open>String.prototype.toUpperCase\<close> of the runtime.
\<close>

definition resolveReferrer ::
  "(string \<Rightarrow> string) \<Rightarrow> db \<Rightarrow> string option \<Rightarrow> string option result" where
  "resolveReferrer toUpperCase d rc =
     (if rc = None \<or> rc = Some [] then Inr None
      else
        (case find (\<lambda>u. u_referralCode u = toUpperCase (the rc)) (users d) of
           None \<Rightarrow>
             Inl (createError (''C'' @ o_acute @ ''digo de indica'' @ c_cedil @ a_tilde
                               @ ''o inv'' @ a_acute @ ''lido'') 400)
         | Some referrer \<Rightarrow> Inr (Some (u_id referrer))))"

text \<open>
  The handler. \<open>hashPassword\<close> stands for bcrypt, \<open>toUpperCase\<close> for
  \<open>String.prototype.toUpperCase\<close>, \<open>today\<close> is the calendar date of
  the clock and \<open>cuid\<close> the id generated for the new row. The result is \<open>None\<close>
  when the loop of the referral codes has not ended. The welcome e-mail and the tokens
  do not touch the database; an error of the e-mail is caught.
\<close>

definition register ::
  "(register_body \<Rightarrow> bool) \<Rightarrow> (string \<Rightarrow> string) \<Rightarrow> (string \<Rightarrow> string) \<Rightarrow> date \<Rightarrow> string
   \<Rightarrow> string list \<Rightarrow> db \<Rightarrow> register_body \<Rightarrow> (db \<times> user result) option" where
  "register joi toUpperCase hashPassword today cuid draws d validatedData =
     (if \<not> joi validatedData then Some (d, Inl validationError)
      else if \<not> isMinimumAge today (rb_birthDate validatedData) then
        Some (d, Inl (createError
           (''Voc'' @ e_circ @ '' deve ter pelo menos 18 anos para se cadastrar'') 400))
      else
        (let cleanedCPF = cleanCPF (rb_cpf validatedData)
         in case duplicateError d (rb_email validatedData) cleanedCPF of
              Some e \<Rightarrow> Some (d, Inl e)
            | None \<Rightarrow>
                (let hashedPassword = hashPassword (rb_password validatedData)
                 in case pickReferralCode d draws of
                      None \<Rightarrow> None
                    | Some referralCode \<Rightarrow>
                        (case resolveReferrer toUpperCase d (rb_referralCode validatedData) of
                           Inl e \<Rightarrow> Some (d, Inl e)
                         | Inr referredById \<Rightarrow>
                             (let newUser =
                                    \<lparr>u_id = cuid, u_email = rb_email validatedData,
                                     u_cpf = cleanedCPF,
                                     u_firstName = rb_firstName validatedData,
                                     u_lastName = rb_lastName validatedData,
                                     u_phone = rb_phone validatedData,
                                     u_birthDate = Some (rb_birthDate validatedData),
                                     u_password = Some hashedPassword,
                                     u_emailVerified = False, u_isActive = True,
                                     u_referralCode = referralCode,
                                     u_referredById = referredById\<rparr>
                              in if cuid \<in> set (map u_id (users d)) then
                                   Some (d, Inl (prismaKnownError ''P2002''
                                                   (Some (JArr [JStr ''id'']))))
                                 else
                                   Some (d\<lparr>users := users d @ [newUser]\<rparr>,
                                         Inr newUser))))))"

section \<open>Example data\<close>

definition bankOfU1 :: bank_data where
  "bankOfU1 =
     \<lparr>bd_id = ''b1'', bd_userId = ''u1'', bankCode = ''001'', bankName = ''Banco do Brasil'',
      agency = ''1234'', account = ''56789-0'', accountType = ''corrente'',
      holderName = ''Ana Souza'', holderCpf = ''52998224725'', pixKey = None,
      pixKeyType = None\<rparr>"

definition commissionOfU1 :: commission where
  "commissionOfU1 =
     \<lparr>cm_id = ''c1'', cm_earnerId = ''u1'', cm_sourceId = ''u2'', cm_amount = 100,
      cm_percentage = 3 / 10, cm_status = C_AVAILABLE\<rparr>"

text \<open>User u1 has bank data on file and an available balance of 100.\<close>

definition dbFunded :: db where
  "dbFunded = emptyDb\<lparr>bankData := [bankOfU1], commissions := [commissionOfU1]\<rparr>"

definition paidRequest :: withdrawal_request where
  "paidRequest =
     \<lparr>wr_id = ''w0'', wr_userId = ''u1'', wr_amount = 60, wr_status = W_PAID,
      wr_bankData = bankSnapshot bankOfU1, wr_requestedAt = 1000, wr_processedAt = Some 2000,
      wr_paidAt = Some 3000, wr_adminNotes = None, wr_createdAt = 1000, wr_updatedAt = 3000\<rparr>"

text \<open>The same user with one request that has been paid.\<close>

definition dbPaid :: db where
  "dbPaid = dbFunded\<lparr>withdrawalRequests := [paidRequest]\<rparr>"

text \<open>Any conversion of numbers to text serves where the text is not looked at.\<close>

definition noFmt :: "rat \<Rightarrow> string" where
  "noFmt n = []"

text \<open>
  The conversions of the runtime at the values of the examples: \<open>Number('1000')\<close> is
  1000, the decimals 999 and 100 print as \<open>'999'\<close> and \<open>'100'\<close>, and the string
  \<open>'1000'\<close> denotes the decimal 1000. No example reads the functions anywhere else.
\<close>

definition runtimeOfExamples :: runtime where
  "runtimeOfExamples =
     \<lparr>stringToNumber = (\<lambda>s. if s = ''1000'' then Finite 1000 else NaN),
      numberToString = (\<lambda>n. []),
      objectToString = (\<lambda>v. []),
      decimalValueOf = (\<lambda>r. if r = 999 then ''999'' else if r = 100 then ''100'' else []),
      stringToDecimal = (\<lambda>s. if s = ''1000'' then Some 1000 else None)\<rparr>"

text \<open>From \<open>dbFunded\<close>, u1 asks for 60 and the request w0 is created.\<close>

definition dbRequested :: db where
  "dbRequested = fst (withdraw runtimeOfExamples None ''w0'' 1000 dbFunded ''u1'' (JNum 60))"

text \<open>User u1 with bank data on file and an available balance of 999.\<close>

definition dbFunded999 :: db where
  "dbFunded999 =
     emptyDb\<lparr>bankData := [bankOfU1], commissions := [commissionOfU1\<lparr>cm_amount := 999\<rparr>]\<rparr>"

text \<open>
  An uppercasing function for the examples: on ASCII text
  \<open>String.prototype.toUpperCase\<close> changes the letters \<open>a\<close> to \<open>z\<close> and nothing else.
\<close>

definition asciiUpperChar :: "char \<Rightarrow> char" where
  "asciiUpperChar c =
     (if 97 \<le> (of_char c :: nat) \<and> (of_char c :: nat) \<le> 122
      then (case c of Char b0 b1 b2 b3 b4 b5 b6 b7 \<Rightarrow> Char b0 b1 b2 b3 b4 False b6 b7)
      else c)"

definition asciiUpperCase :: "string \<Rightarrow> string" where
  "asciiUpperCase s = map asciiUpperChar s"

text \<open>
  Two coupons: ten per cent off with a cap of 20, and a fixed 50 off whose limit per user
  is 0. One product, and a database holding them.
\<close>

definition couponSave10 :: coupon where
  "couponSave10 =
     \<lparr>cp_id = ''k1'', cp_code = ''SAVE10'', cp_name = ''Dez por cento'', cp_type = PERCENTAGE,
      cp_value = 10, cp_minimumAmount = Some 100, cp_maximumDiscount = Some 20,
      cp_startDate = 0, cp_endDate = 9000, cp_usageLimitPerUser = Some 1,
      cp_isActive = True\<rparr>"

definition couponFix50 :: coupon where
  "couponFix50 =
     \<lparr>cp_id = ''k2'', cp_code = ''FIX50'', cp_name = ''Cinquenta'', cp_type = FIXED_AMOUNT,
      cp_value = 50, cp_minimumAmount = None, cp_maximumDiscount = None,
      cp_startDate = 0, cp_endDate = 9000, cp_usageLimitPerUser = Some 0,
      cp_isActive = True\<rparr>"

definition productTea :: product where
  "productTea =
     \<lparr>p_id = ''p1'', p_name = ''Cha verde'', p_price = 30, p_stock = 5,
      p_trackStock = True, p_isActive = True\<rparr>"

definition dbShop :: db where
  "dbShop = emptyDb\<lparr>products := [productTea], coupons := [couponSave10, couponFix50]\<rparr>"

text \<open>
  User u1 orders four teas with SAVE10, which leaves \<open>dbOrdered\<close>; or two teas with
  FIX50, which leaves \<open>dbFix50\<close>.
\<close>

definition shipTo :: json where
  "shipTo = JObj [(''city'', JStr ''Recife'')]"

definition dbOrdered :: db where
  "dbOrdered =
     fst (createOrder noFmt 5000 ''o1'' ''uc1'' ''BC000001AAAAAA'' dbShop ''u1''
            [(''p1'', 4)] shipTo (Some ''PIX'') (Some ''SAVE10''))"

definition dbFix50 :: db where
  "dbFix50 =
     fst (createOrder noFmt 5000 ''o1'' ''uc1'' ''BC000001AAAAAA'' dbShop ''u1''
            [(''p1'', 2)] shipTo (Some ''PIX'') (Some ''FIX50''))"

text \<open>
  Two users without subscription, billing or withdrawal; u1 has an address, bank data, a
  consent, an order and a commission. The admin approves the erasure of u1 and then
  that of u2.
\<close>

definition userAna :: user where
  "userAna =
     \<lparr>u_id = ''u1'', u_email = ''ana@example.org'', u_cpf = ''52998224725'',
      u_firstName = ''Ana'', u_lastName = ''Souza'', u_phone = Some ''81999990000'',
      u_birthDate = Some \<lparr>year = 1990, month = 4, day = 12\<rparr>, u_password = Some ''hash1'',
      u_emailVerified = True, u_isActive = True, u_referralCode = ''A1B2C3D4'',
      u_referredById = None\<rparr>"

definition userBia :: user where
  "userBia =
     \<lparr>u_id = ''u2'', u_email = ''bia@example.org'', u_cpf = ''11144477735'',
      u_firstName = ''Bia'', u_lastName = ''Lima'', u_phone = None,
      u_birthDate = Some \<lparr>year = 1985, month = 1, day = 30\<rparr>, u_password = Some ''hash2'',
      u_emailVerified = True, u_isActive = True, u_referralCode = ''E5F6A7B8'',
      u_referredById = Some ''u1''\<rparr>"

definition addressOfU1 :: address where
  "addressOfU1 =
     \<lparr>a_id = ''a1'', a_userId = ''u1'', street = ''Rua da Aurora'', number = ''100'',
      complement = None, neighborhood = ''Boa Vista'', city = ''Recife'', state = ''PE'',
      zipCode = ''50050-000'', country = ''Brasil''\<rparr>"

definition consentOfU1 :: user_consent where
  "consentOfU1 =
     \<lparr>uco_id = ''s1'', uco_userId = ''u1'', uco_consentType = ''MARKETING'',
      uco_granted = True\<rparr>"

definition orderOfU1 :: order where
  "orderOfU1 =
     \<lparr>o_id = ''o0'', o_userId = ''u1'', o_orderNumber = ''BC000000ZZZZZZ'', o_subtotal = 30,
      o_shippingCost = 0, o_discount = 0, o_total = 30, o_status = O_DELIVERED,
      o_paymentStatus = P_PAID, o_paymentMethod = PIX, o_shippingAddress = JNull,
      o_couponCode = None, o_items = [], o_createdAt = 10\<rparr>"

definition dbTwoUsers :: db where
  "dbTwoUsers =
     emptyDb\<lparr>users := [userAna, userBia], addresses := [addressOfU1],
             bankData := [bankOfU1], commissions := [commissionOfU1],
             orders := [orderOfU1], userConsents := [consentOfU1]\<rparr>"

definition dbAnaErased :: db where
  "dbAnaErased =
     fst (processErasureRequest 1000 ''r1'' ''/backups/u1.enc'' dbTwoUsers ''u1'' ''adm'' None)"

definition dbBiaRefused :: db where
  "dbBiaRefused =
     fst (processErasureRequest 2000 ''r2'' ''/backups/u2.enc'' dbAnaErased ''u2'' ''adm'' None)"

text \<open>
  The same, when u2 has an address, bank data and a consent on file at the time the
  admin approves the erasure of u2.
\<close>

definition addressOfU2 :: address where
  "addressOfU2 =
     \<lparr>a_id = ''a2'', a_userId = ''u2'', street = ''Rua do Sol'', number = ''7'',
      complement = None, neighborhood = ''Centro'', city = ''Olinda'', state = ''PE'',
      zipCode = ''53020-000'', country = ''Brasil''\<rparr>"

definition bankOfU2 :: bank_data where
  "bankOfU2 =
     \<lparr>bd_id = ''b2'', bd_userId = ''u2'', bankCode = ''237'', bankName = ''Bradesco'',
      agency = ''4321'', account = ''98765-4'', accountType = ''corrente'',
      holderName = ''Bia Lima'', holderCpf = ''11144477735'', pixKey = None,
      pixKeyType = None\<rparr>"

definition consentOfU2 :: user_consent where
  "consentOfU2 =
     \<lparr>uco_id = ''s2'', uco_userId = ''u2'', uco_consentType = ''MARKETING'',
      uco_granted = True\<rparr>"

definition dbBiaOnFile :: db where
  "dbBiaOnFile =
     dbAnaErased\<lparr>addresses := [addressOfU2], bankData := [bankOfU2],
                  userConsents := [consentOfU2]\<rparr>"

definition dbBiaKept :: db where
  "dbBiaKept =
     fst (processErasureRequest 2000 ''r2'' ''/backups/u2.enc'' dbBiaOnFile ''u2'' ''adm'' None)"

text \<open>
  A schema that accepts everything, a hash, and two bodies sent when u1 and u2 exist:
  one with the e-mail of u1 and a referral code that nobody has, one new and referred
  by u1.
\<close>

definition joiAny :: "register_body \<Rightarrow> bool" where
  "joiAny b = True"

definition hashToy :: "string \<Rightarrow> string" where
  "hashToy p = ''$2a$12$'' @ p"

definition day2024 :: date where
  "day2024 = \<lparr>year = 2024, month = 6, day = 1\<rparr>"

definition bodyTaken :: register_body where
  "bodyTaken =
     \<lparr>rb_firstName = ''Caio'', rb_lastName = ''Melo'', rb_email = ''ana@example.org'',
      rb_cpf = ''390.533.447-05'', rb_phone = None,
      rb_birthDate = \<lparr>year = 1995, month = 3, day = 9\<rparr>, rb_password = ''Segredo#1'',
      rb_referralCode = Some ''zzzz9999''\<rparr>"

definition bodyNew :: register_body where
  "bodyNew =
     \<lparr>rb_firstName = ''Caio'', rb_lastName = ''Melo'', rb_email = ''caio@example.org'',
      rb_cpf = ''390.533.447-05'', rb_phone = None,
      rb_birthDate = \<lparr>year = 1995, month = 3, day = 9\<rparr>, rb_password = ''Segredo#1'',
      rb_referralCode = Some ''a1b2c3d4''\<rparr>"

section \<open>The error envelope\<close>

lemma classify_createError:
  "sc \<noteq> 0 \<Longrightarrow> classify (createError msg sc) = (sc, msg, None)"
  by (simp add: classify_def createError_def)

lemma status_errorHandler: "http_status (errorHandler env e) = fst (classify e)"
  by (simp add: errorHandler_def split: prod.splits)

text \<open>
  C8. Whatever error reaches \<open>errorHandler\<close>, the body of the response is the object
  \<open>{success: false, error: {message, statusCode, ...}}\<close> whose \<open>statusCode\<close> is the
  HTTP status of the response; outside development the object has no further key. An
  error of none of the recognised classes is answered with status 500.
\<close>

theorem errorHandler_envelope:
  "(\<exists>msg extra.
      http_body (errorHandler env e) =
        JObj [(''success'', JBool False),
              (''error'', JObj ([(''message'', JStr msg),
                                 (''statusCode'', JNum (of_int (http_status (errorHandler env e))))]
                                @ extra))]
      \<and> (env \<noteq> Some ''development'' \<longrightarrow> extra = []))
   \<and> (\<not> recognized e \<longrightarrow> http_status (errorHandler env e) = 500)"
proof
  obtain sc msg details where c: "classify e = (sc, msg, details)"
    by (cases "classify e") auto
  show "\<exists>msg extra.
      http_body (errorHandler env e) =
        JObj [(''success'', JBool False),
              (''error'', JObj ([(''message'', JStr msg),
                                 (''statusCode'', JNum (of_int (http_status (errorHandler env e))))]
                                @ extra))]
      \<and> (env \<noteq> Some ''development'' \<longrightarrow> extra = [])"
    using c by (simp add: errorHandler_def)
next
  show "\<not> recognized e \<longrightarrow> http_status (errorHandler env e) = 500"
    by (simp add: status_errorHandler classify_def recognized_def)
qed

theorem errorHandler_envelope_witness:
  "\<not> recognized (newError ''boom'')
   \<and> http_status (errorHandler None (newError ''boom'')) = 500
   \<and> http_body (errorHandler None (newError ''boom'')) =
       JObj [(''success'', JBool False),
             (''error'', JObj [(''message'', JStr ''Erro interno do servidor''),
                               (''statusCode'', JNum 500)])]"
proof -
  have r: "\<not> recognized (newError ''boom'')"
    by (simp add: recognized_def newError_def)
  from errorHandler_envelope [of None "newError ''boom''"] r
  have "http_status (errorHandler None (newError ''boom'')) = 500"
    by blast
  moreover have "http_body (errorHandler None (newError ''boom'')) =
       JObj [(''success'', JBool False),
             (''error'', JObj [(''message'', JStr ''Erro interno do servidor''),
                               (''statusCode'', JNum 500)])]"
    by (simp add: errorHandler_def classify_def newError_def)
  ultimately show ?thesis using r by simp
qed


section \<open>Withdrawal requests\<close>

lemma failsWith_createError: "sc \<noteq> 0 \<Longrightarrow> failsWith (Inl (createError msg sc)) sc"
  by (simp add: failsWith_def status_errorHandler classify_createError)

lemma failsWith_prismaValidationError: "failsWith (Inl prismaValidationError) 400"
  by (simp add: failsWith_def status_errorHandler classify_def prismaValidationError_def)

lemma find_append:
  "find P (xs @ ys) = (case find P xs of None \<Rightarrow> find P ys | Some x \<Rightarrow> Some x)"
  by (induction xs) auto

subsection \<open>The balance test\<close>

text \<open>
  For an amount that is a JSON number the three guards are comparisons of numbers, and
  a withdrawal above the available balance, not positive or below the minimum is
  answered with status 400 and writes nothing.
\<close>

lemma greaterThanBalance_number:
  "greaterThanBalance rt (JNum a) d userId \<longleftrightarrow> availableBalance d userId < a"
  by (simp add: greaterThanBalance_def availableBalance_def)

lemma withdraw_number_rejects:
  assumes "availableBalance d userId < a \<or> a \<le> 0 \<or> numLess (Finite a) (minWithdrawal rt minEnv)"
  shows "fst (withdraw rt minEnv cuid now d userId (JNum a)) = d
     \<and> failsWith (snd (withdraw rt minEnv cuid now d userId (JNum a))) 400"
proof (cases "a \<le> 0")
  case True
  then show ?thesis
    by (simp add: withdraw_def falsy_def numLessEq_def failsWith_createError)
next
  case positive: False
  show ?thesis
  proof (cases "numLess (Finite a) (minWithdrawal rt minEnv)")
    case True
    with positive show ?thesis
      by (simp add: withdraw_def falsy_def numLessEq_def failsWith_createError)
  next
    case False
    with positive assms have "availableBalance d userId < a" by simp
    with positive False show ?thesis
      by (simp add: withdraw_def falsy_def numLessEq_def greaterThanBalance_number
          failsWith_createError)
  qed
qed

lemma dbFunded_fields:
  "bankData dbFunded = [bankOfU1]" "commissions dbFunded = [commissionOfU1]"
  "withdrawalRequests dbFunded = []"
  by (simp_all add: dbFunded_def emptyDb_def)

lemma bankOfU1_user: "bd_userId bankOfU1 = ''u1''"
  by (simp add: bankOfU1_def)

lemma commissionOfU1_fields:
  "cm_earnerId commissionOfU1 = ''u1''" "cm_status commissionOfU1 = C_AVAILABLE"
  "cm_amount commissionOfU1 = 100"
  by (simp_all add: commissionOfU1_def)

lemma dbFunded999_fields:
  "bankData dbFunded999 = [bankOfU1]"
  "commissions dbFunded999 = [commissionOfU1\<lparr>cm_amount := 999\<rparr>]"
  "withdrawalRequests dbFunded999 = []"
  by (simp_all add: dbFunded999_def emptyDb_def)

lemma runtimeOfExamples_fields:
  "stringToNumber runtimeOfExamples ''1000'' = Finite 1000"
  "decimalValueOf runtimeOfExamples 999 = ''999''"
  "decimalValueOf runtimeOfExamples 100 = ''100''"
  "stringToDecimal runtimeOfExamples ''1000'' = Some 1000"
  by (simp_all add: runtimeOfExamples_def)

lemma roundScale2_examples:
  "roundScale2 1000 = 1000" "roundScale2 60 = 60" "fitsDecimal_10_2 1000" "fitsDecimal_10_2 60"
  by (simp_all add: roundScale2_def fitsDecimal_10_2_def floor_eq_iff)

lemma balance_examples:
  "availableBalance dbFunded999 ''u1'' = 999"
  "availableCommissions dbFunded999 ''u1'' = [commissionOfU1\<lparr>cm_amount := 999\<rparr>]"
  "availableBalance dbFunded ''u1'' = 100"
  "availableCommissions dbFunded ''u1'' = [commissionOfU1]"
  by (simp_all add: availableBalance_def availableCommissions_def dbFunded999_fields
      dbFunded_fields commissionOfU1_fields)

text \<open>
  C1 at a failing input. User u1 has bank data on file, no open request and an available
  balance of 999, and the body is \<open>{"amount": "1000"}\<close>. The string is truthy and
  converts to the number 1000, so the tests against 0 and against the minimum of 50
  pass; \<open>balance\<close> is a \<open>Decimal\<close>, whose primitive is the string \<open>'999'\<close>, so
  \<open>amount > balance\<close> compares the strings \<open>'1000'\<close> and \<open>'999'\<close> and is false. The
  request is accepted and a PENDING row for 1000 is created, above the balance.
\<close>

theorem withdraw_accepts_string_above_balance:
  "availableBalance dbFunded999 ''u1'' = 999
   \<and> toNumber runtimeOfExamples (JStr ''1000'') = Finite 1000
   \<and> decimalValueOf runtimeOfExamples 999 = ''999''
   \<and> \<not> strLess ''999'' ''1000''
   \<and> withdraw runtimeOfExamples None ''w0'' 1000 dbFunded999 ''u1'' (JStr ''1000'') =
       (dbFunded999\<lparr>withdrawalRequests :=
          [\<lparr>wr_id = ''w0'', wr_userId = ''u1'', wr_amount = 1000, wr_status = W_PENDING,
            wr_bankData = bankSnapshot bankOfU1, wr_requestedAt = 1000, wr_processedAt = None,
            wr_paidAt = None, wr_adminNotes = None, wr_createdAt = 1000, wr_updatedAt = 1000\<rparr>]\<rparr>,
        Inr \<lparr>wr_id = ''w0'', wr_userId = ''u1'', wr_amount = 1000, wr_status = W_PENDING,
            wr_bankData = bankSnapshot bankOfU1, wr_requestedAt = 1000, wr_processedAt = None,
            wr_paidAt = None, wr_adminNotes = None, wr_createdAt = 1000, wr_updatedAt = 1000\<rparr>)"
  by (simp add: withdraw_def falsy_def balance_examples runtimeOfExamples_fields numLessEq_def
      minWithdrawal_def greaterThanBalance_def dbFunded999_fields bankOfU1_user decimalInput_def
      roundScale2_examples Let_def)

subsection \<open>The admin update\<close>

lemma updateWithdrawal_writes_nothing: "fst (updateWithdrawal now d wid st nts) = d"
  by (simp add: updateWithdrawal_def split: option.splits)

lemma updateWithdrawal_found:
  assumes "find (\<lambda>w. wr_id w = wid) (withdrawalRequests d) = Some w"
  shows "failsWith (snd (updateWithdrawal now d wid st nts)) 400"
  using assms
  by (simp add: updateWithdrawal_def failsWith_createError failsWith_prismaValidationError)

lemma updateWithdrawal_rows:
  "list_all2 (\<lambda>w w'. w' = w
        \<or> (wr_id w' = wr_id w \<and> wr_status w' \<in> {W_APPROVED, W_REJECTED, W_PAID}))
     (withdrawalRequests d) (withdrawalRequests (fst (updateWithdrawal now d wid st nts)))"
  by (simp add: updateWithdrawal_writes_nothing list.rel_refl)

text \<open>
  C10. The admin update accepts only APPROVED, REJECTED and PAID as the \<open>status\<close> of the
  body. Any other value is answered with status 400, with the same result whatever the
  database holds, which is left as it was; and whatever the request, a row of the table
  is either left alone or ends in one of these three statuses, so PROCESSING and
  CANCELED are never written.
\<close>

theorem updateWithdrawal_accepts_three_statuses:
  "(st \<notin> set [JStr ''APPROVED'', JStr ''REJECTED'', JStr ''PAID''] \<longrightarrow>
      updateWithdrawal now d wid st nts =
        (d, Inl (createError (''Status inv'' @ a_acute @ ''lido'') 400))
      \<and> failsWith (snd (updateWithdrawal now d wid st nts)) 400)
   \<and> list_all2 (\<lambda>w w'. w' = w
         \<or> (wr_id w' = wr_id w \<and> wr_status w' \<in> {W_APPROVED, W_REJECTED, W_PAID}))
       (withdrawalRequests d) (withdrawalRequests (fst (updateWithdrawal now d wid st nts)))"
proof
  show "st \<notin> set [JStr ''APPROVED'', JStr ''REJECTED'', JStr ''PAID''] \<longrightarrow>
      updateWithdrawal now d wid st nts =
        (d, Inl (createError (''Status inv'' @ a_acute @ ''lido'') 400))
      \<and> failsWith (snd (updateWithdrawal now d wid st nts)) 400"
    by (simp add: updateWithdrawal_def failsWith_createError)
next
  show "list_all2 (\<lambda>w w'. w' = w
         \<or> (wr_id w' = wr_id w \<and> wr_status w' \<in> {W_APPROVED, W_REJECTED, W_PAID}))
       (withdrawalRequests d) (withdrawalRequests (fst (updateWithdrawal now d wid st nts)))"
    by (rule updateWithdrawal_rows)
qed

theorem updateWithdrawal_accepts_three_statuses_witness:
  "JStr ''PROCESSING'' \<notin> set [JStr ''APPROVED'', JStr ''REJECTED'', JStr ''PAID'']
   \<and> fst (updateWithdrawal 5000 dbPaid ''w0'' (JStr ''PROCESSING'') JNull) = dbPaid
   \<and> failsWith (snd (updateWithdrawal 5000 dbPaid ''w0'' (JStr ''PROCESSING'') JNull)) 400"
  using updateWithdrawal_accepts_three_statuses
    [where st = "JStr ''PROCESSING''" and now = 5000 and d = dbPaid and wid = "''w0''"
       and nts = JNull]
  by auto

subsection \<open>The outcomes of a withdrawal\<close>

lemma oneOpenPerUser_iff:
  "oneOpenPerUser ws \<longleftrightarrow> (\<forall>uid. length (openRequests ws uid) \<le> 1)"
proof
  assume a: "oneOpenPerUser ws"
  show "\<forall>uid. length (openRequests ws uid) \<le> 1"
  proof
    fix uid
    show "length (openRequests ws uid) \<le> 1"
    proof (cases "openRequests ws uid")
      case Nil
      then show ?thesis by simp
    next
      case (Cons w rest)
      then have "w \<in> set (openRequests ws uid)" by simp
      then have "w \<in> set ws" "wr_userId w = uid" by (auto simp: openRequests_def)
      with a show ?thesis by (auto simp: oneOpenPerUser_def list_all_iff)
    qed
  qed
next
  assume "\<forall>uid. length (openRequests ws uid) \<le> 1"
  then show "oneOpenPerUser ws" by (simp add: oneOpenPerUser_def list_all_iff)
qed

lemma find_None_open:
  "find (\<lambda>w. wr_userId w = uid \<and> nonTerminal (wr_status w)) ws = None
   \<longleftrightarrow> openRequests ws uid = []"
  by (auto simp: find_None_iff openRequests_def filter_empty_conv)

lemma openRequests_snoc:
  "openRequests (ws @ [w]) uid =
     openRequests ws uid @ (if wr_userId w = uid \<and> nonTerminal (wr_status w) then [w] else [])"
  by (simp add: openRequests_def)

text \<open>The two outcomes of the handler: it throws and writes nothing, or it appends one row.\<close>

lemma withdraw_cases:
  "(fst (withdraw rt minEnv cuid now d userId amount) = d
    \<and> (\<exists>e. snd (withdraw rt minEnv cuid now d userId amount) = Inl e))
   \<or> (\<exists>w b v. withdraw rt minEnv cuid now d userId amount =
               (d\<lparr>withdrawalRequests := withdrawalRequests d @ [w]\<rparr>, Inr w)
        \<and> w = \<lparr>wr_id = cuid, wr_userId = userId, wr_amount = roundScale2 v,
                wr_status = W_PENDING, wr_bankData = bankSnapshot b,
                wr_requestedAt = now, wr_processedAt = None, wr_paidAt = None,
                wr_adminNotes = None, wr_createdAt = now, wr_updatedAt = now\<rparr>
        \<and> find (\<lambda>b. bd_userId b = userId) (bankData d) = Some b
        \<and> decimalInput rt amount = Some v \<and> fitsDecimal_10_2 v
        \<and> openRequests (withdrawalRequests d) userId = [])"
  by (auto simp: withdraw_def falsy_def Let_def find_None_open split: option.splits)

lemma withdraw_preserves:
  assumes "oneOpenPerUser (withdrawalRequests d)"
  shows "oneOpenPerUser (withdrawalRequests (fst (withdraw rt minEnv cuid now d userId amount)))"
  using withdraw_cases [of rt minEnv cuid now d userId amount] assms
  by (auto simp: oneOpenPerUser_iff openRequests_snoc nonTerminal_def)

lemma withdraw_open_rejects:
  assumes "\<exists>w \<in> set (withdrawalRequests d). wr_userId w = userId \<and> nonTerminal (wr_status w)"
  shows "fst (withdraw rt minEnv cuid now d userId amount) = d
         \<and> failsWith (snd (withdraw rt minEnv cuid now d userId amount)) 400"
proof -
  from assms
  have "find (\<lambda>w. wr_userId w = userId \<and> nonTerminal (wr_status w)) (withdrawalRequests d) \<noteq> None"
    by (auto simp: find_None_iff)
  then show ?thesis
    by (auto simp: withdraw_def falsy_def failsWith_createError split: option.splits)
qed

lemma withdraw_created:
  assumes "snd (withdraw rt minEnv cuid now d userId amount) = Inr w"
  shows "fst (withdraw rt minEnv cuid now d userId amount) =
           d\<lparr>withdrawalRequests := withdrawalRequests d @ [w]\<rparr>
         \<and> wr_status w = W_PENDING \<and> wr_userId w = userId
         \<and> (\<exists>b. find (\<lambda>b. bd_userId b = userId) (bankData d) = Some b
                \<and> wr_bankData w = bankSnapshot b)
         \<and> (\<exists>v. decimalInput rt amount = Some v \<and> wr_amount w = roundScale2 v)"
  using withdraw_cases [of rt minEnv cuid now d userId amount] assms by auto

lemma withdraw_accepts:
  assumes "truthy amount" "\<not> numLessEq (toNumber rt amount) (Finite 0)"
    and "\<not> numLess (toNumber rt amount) (minWithdrawal rt minEnv)"
    and "\<not> greaterThanBalance rt amount d userId"
    and "find (\<lambda>b. bd_userId b = userId) (bankData d) \<noteq> None"
    and "openRequests (withdrawalRequests d) userId = []"
    and "decimalInput rt amount = Some v" "fitsDecimal_10_2 v"
    and "cuid \<notin> set (map wr_id (withdrawalRequests d))"
  shows "\<exists>w. snd (withdraw rt minEnv cuid now d userId amount) = Inr w"
  using assms by (auto simp: withdraw_def falsy_def Let_def find_None_open [symmetric])

lemma withdraw_appends:
  "\<exists>new. withdrawalRequests (fst (withdraw rt minEnv cuid now d userId amount)) =
          withdrawalRequests d @ new"
  using withdraw_cases [of rt minEnv cuid now d userId amount] by auto

subsection \<open>Sequences of requests\<close>

lemma serve_preserves:
  assumes "oneOpenPerUser (withdrawalRequests d)"
  shows "oneOpenPerUser (withdrawalRequests (serve rt minEnv d r))"
  using assms by (cases r) (simp_all add: withdraw_preserves updateWithdrawal_writes_nothing)

lemma run_preserves:
  assumes "oneOpenPerUser (withdrawalRequests d)"
  shows "oneOpenPerUser (withdrawalRequests (run rt minEnv d rs))"
  using assms unfolding run_def
  by (induction rs arbitrary: d) (simp_all add: serve_preserves)

lemma serve_appends:
  "\<exists>new. withdrawalRequests (serve rt minEnv d r) = withdrawalRequests d @ new"
  by (cases r) (simp_all add: withdraw_appends updateWithdrawal_writes_nothing)

lemma run_appends:
  "\<exists>new. withdrawalRequests (run rt minEnv d rs) = withdrawalRequests d @ new"
  unfolding run_def
proof (induction rs arbitrary: d)
  case Nil
  then show ?case by simp
next
  case (Cons r rs)
  obtain new1 where a: "withdrawalRequests (serve rt minEnv d r) = withdrawalRequests d @ new1"
    using serve_appends by blast
  obtain new2 where b: "withdrawalRequests (foldl (serve rt minEnv) (serve rt minEnv d r) rs) =
      withdrawalRequests (serve rt minEnv d r) @ new2"
    using Cons.IH by blast
  show ?case by (simp add: a b)
qed

lemma dbPaid_rows: "withdrawalRequests dbPaid = [paidRequest]"
  "bankData dbPaid = [bankOfU1]" "commissions dbPaid = [commissionOfU1]"
  by (simp_all add: dbPaid_def dbFunded_fields)

lemma paidRequest_fields:
  "wr_id paidRequest = ''w0''" "wr_status paidRequest = W_PAID" "wr_userId paidRequest = ''u1''"
  by (simp_all add: paidRequest_def)

text \<open>
  C2. A withdrawal request that is PAID stays as it is under every sequence of requests
  to the two routes that write to the table: under its id the same row is found afterwards,
  so its status is still PAID. An admin update of that request is always answered with
  status 400 and writes nothing: with a status outside the three accepted ones by the
  first test of the handler, with an accepted one by the Prisma client, which refuses
  the \<open>include\<close> of a relation that the model does not have.
\<close>

theorem paid_is_terminal:
  assumes "find (\<lambda>w. wr_id w = wid) (withdrawalRequests d) = Some w"
    and "wr_status w = W_PAID"
  shows "find (\<lambda>w. wr_id w = wid) (withdrawalRequests (run rt minEnv d rs)) = Some w
     \<and> fst (updateWithdrawal now d wid st nts) = d
     \<and> failsWith (snd (updateWithdrawal now d wid st nts)) 400"
proof -
  obtain new where "withdrawalRequests (run rt minEnv d rs) = withdrawalRequests d @ new"
    using run_appends by blast
  with assms(1)
  have "find (\<lambda>w. wr_id w = wid) (withdrawalRequests (run rt minEnv d rs)) = Some w"
    by (simp add: find_append)
  then show ?thesis
    using updateWithdrawal_found [OF assms(1)] by (simp add: updateWithdrawal_writes_nothing)
qed

theorem paid_is_terminal_witness:
  "find (\<lambda>w. wr_id w = ''w0'') (withdrawalRequests dbPaid) = Some paidRequest
   \<and> wr_status paidRequest = W_PAID
   \<and> find (\<lambda>w. wr_id w = ''w0'')
        (withdrawalRequests
           (run runtimeOfExamples None dbPaid
              [PatchWithdrawal 5000 ''w0'' (JStr ''REJECTED'') JNull,
               PostWithdraw ''w1'' 6000 ''u1'' (JNum 60),
               PatchWithdrawal 7000 ''w0'' (JStr ''APPROVED'') (JStr ''again'')])) =
       Some paidRequest
   \<and> map wr_status
        (withdrawalRequests
           (run runtimeOfExamples None dbPaid
              [PatchWithdrawal 5000 ''w0'' (JStr ''REJECTED'') JNull,
               PostWithdraw ''w1'' 6000 ''u1'' (JNum 60),
               PatchWithdrawal 7000 ''w0'' (JStr ''APPROVED'') (JStr ''again'')])) =
       [W_PAID, W_PENDING]
   \<and> fst (updateWithdrawal 5000 dbPaid ''w0'' (JStr ''REJECTED'') JNull) = dbPaid
   \<and> failsWith (snd (updateWithdrawal 5000 dbPaid ''w0'' (JStr ''REJECTED'') JNull)) 400"
proof -
  have f: "find (\<lambda>w. wr_id w = ''w0'') (withdrawalRequests dbPaid) = Some paidRequest"
    by (simp add: dbPaid_rows paidRequest_fields)
  have p: "wr_status paidRequest = W_PAID"
    by (simp add: paidRequest_fields)
  note t = paid_is_terminal [OF f p, where rt = runtimeOfExamples and minEnv = None
      and now = 5000 and st = "JStr ''REJECTED''" and nts = JNull
      and rs = "[PatchWithdrawal 5000 ''w0'' (JStr ''REJECTED'') JNull,
               PostWithdraw ''w1'' 6000 ''u1'' (JNum 60),
               PatchWithdrawal 7000 ''w0'' (JStr ''APPROVED'') (JStr ''again'')]"]
  have s: "map wr_status
        (withdrawalRequests
           (run runtimeOfExamples None dbPaid
              [PatchWithdrawal 5000 ''w0'' (JStr ''REJECTED'') JNull,
               PostWithdraw ''w1'' 6000 ''u1'' (JNum 60),
               PatchWithdrawal 7000 ''w0'' (JStr ''APPROVED'') (JStr ''again'')])) =
       [W_PAID, W_PENDING]"
    by (simp add: run_def updateWithdrawal_writes_nothing withdraw_def falsy_def numLessEq_def
        minWithdrawal_def greaterThanBalance_number availableBalance_def
        availableCommissions_def dbPaid_rows commissionOfU1_fields bankOfU1_user
        paidRequest_fields nonTerminal_def decimalInput_def roundScale2_examples Let_def)
  from t f p s show ?thesis by simp
qed

subsection \<open>The invariant of open requests\<close>

lemma dbRequested_eq:
  "dbRequested = dbFunded\<lparr>withdrawalRequests :=
     [\<lparr>wr_id = ''w0'', wr_userId = ''u1'', wr_amount = 60, wr_status = W_PENDING,
       wr_bankData = bankSnapshot bankOfU1, wr_requestedAt = 1000, wr_processedAt = None,
       wr_paidAt = None, wr_adminNotes = None, wr_createdAt = 1000, wr_updatedAt = 1000\<rparr>]\<rparr>"
  by (simp add: dbRequested_def withdraw_def falsy_def numLessEq_def minWithdrawal_def
      greaterThanBalance_number balance_examples dbFunded_fields bankOfU1_user
      decimalInput_def roundScale2_examples Let_def)

lemma second_request_message:
  "snd (withdraw runtimeOfExamples None ''w1'' 1500 dbRequested ''u1'' (JNum 60)) =
     Inl (createError (''Voc'' @ e_circ @ '' j'' @ a_acute @ '' possui uma solicita'' @ c_cedil
                       @ a_tilde @ ''o de saque pendente'') 400)"
  by (simp add: withdraw_def falsy_def numLessEq_def minWithdrawal_def
      greaterThanBalance_number availableBalance_def availableCommissions_def
      dbRequested_eq dbFunded_fields commissionOfU1_fields bankOfU1_user nonTerminal_def)

text \<open>
  C3, as stated, fails in its last part: u1 has no open request, and the request for 10
  is yet not followed by a new row, because 10 is below the minimum of 50. The handler
  tests the amount, the balance and the bank data before it looks for an open request.
\<close>

theorem withdraw_below_minimum_counterexample:
  "openRequests (withdrawalRequests dbFunded) ''u1'' = []
   \<and> fst (withdraw runtimeOfExamples None ''w0'' 1000 dbFunded ''u1'' (JNum 10)) = dbFunded
   \<and> failsWith (snd (withdraw runtimeOfExamples None ''w0'' 1000 dbFunded ''u1'' (JNum 10))) 400"
  by (simp add: openRequests_def dbFunded_fields withdraw_def falsy_def numLessEq_def
      minWithdrawal_def failsWith_createError)

text \<open>
  C3, amended. Under every sequence of requests to the two routes that write to the
  table, served one after the other, no user ever has two open requests. The withdraw operation
  answers 400 and writes nothing whenever the user has an open request. When it fails,
  it writes nothing; when it succeeds, it appends exactly one row, which is PENDING,
  belongs to the user, carries the copy of the bank data on file and the amount rounded
  to the scale of the column. And it succeeds whenever the user has no open request and
  the other tests pass: the amount is truthy, not \<open><= 0\<close>, not below the minimum and
  not \<open>> balance\<close> as the handler compares them, bank data is on file, the amount is a
  decimal that fits the column, and the generated id is new.
\<close>

theorem withdraw_one_open_request:
  "(oneOpenPerUser (withdrawalRequests d) \<longrightarrow>
      oneOpenPerUser (withdrawalRequests (run rt minEnv d rs)))
   \<and> ((\<exists>w \<in> set (withdrawalRequests d). wr_userId w = userId \<and> nonTerminal (wr_status w)) \<longrightarrow>
        fst (withdraw rt minEnv cuid now d userId amount) = d
        \<and> failsWith (snd (withdraw rt minEnv cuid now d userId amount)) 400)
   \<and> (isl (snd (withdraw rt minEnv cuid now d userId amount)) \<longrightarrow>
        fst (withdraw rt minEnv cuid now d userId amount) = d)
   \<and> (\<forall>w. snd (withdraw rt minEnv cuid now d userId amount) = Inr w \<longrightarrow>
        fst (withdraw rt minEnv cuid now d userId amount) =
          d\<lparr>withdrawalRequests := withdrawalRequests d @ [w]\<rparr>
        \<and> wr_status w = W_PENDING \<and> wr_userId w = userId
        \<and> (\<exists>b. find (\<lambda>b. bd_userId b = userId) (bankData d) = Some b
               \<and> wr_bankData w = bankSnapshot b)
        \<and> (\<exists>v. decimalInput rt amount = Some v \<and> wr_amount w = roundScale2 v))
   \<and> (openRequests (withdrawalRequests d) userId = []
        \<and> truthy amount \<and> \<not> numLessEq (toNumber rt amount) (Finite 0)
        \<and> \<not> numLess (toNumber rt amount) (minWithdrawal rt minEnv)
        \<and> \<not> greaterThanBalance rt amount d userId
        \<and> find (\<lambda>b. bd_userId b = userId) (bankData d) \<noteq> None
        \<and> (\<exists>v. decimalInput rt amount = Some v \<and> fitsDecimal_10_2 v)
        \<and> cuid \<notin> set (map wr_id (withdrawalRequests d))
      \<longrightarrow> (\<exists>w. snd (withdraw rt minEnv cuid now d userId amount) = Inr w))"
proof (intro conjI impI allI)
  assume "oneOpenPerUser (withdrawalRequests d)"
  then show "oneOpenPerUser (withdrawalRequests (run rt minEnv d rs))"
    by (rule run_preserves)
next
  assume a: "\<exists>w \<in> set (withdrawalRequests d). wr_userId w = userId \<and> nonTerminal (wr_status w)"
  from withdraw_open_rejects [OF a]
  show "fst (withdraw rt minEnv cuid now d userId amount) = d"
    and "failsWith (snd (withdraw rt minEnv cuid now d userId amount)) 400"
    by simp_all
next
  assume "isl (snd (withdraw rt minEnv cuid now d userId amount))"
  then show "fst (withdraw rt minEnv cuid now d userId amount) = d"
    using withdraw_cases [of rt minEnv cuid now d userId amount] by auto
next
  fix w
  assume a: "snd (withdraw rt minEnv cuid now d userId amount) = Inr w"
  from withdraw_created [OF a]
  show "fst (withdraw rt minEnv cuid now d userId amount) =
          d\<lparr>withdrawalRequests := withdrawalRequests d @ [w]\<rparr>"
    and "wr_status w = W_PENDING" and "wr_userId w = userId"
    and "\<exists>b. find (\<lambda>b. bd_userId b = userId) (bankData d) = Some b
               \<and> wr_bankData w = bankSnapshot b"
    and "\<exists>v. decimalInput rt amount = Some v \<and> wr_amount w = roundScale2 v"
    by simp_all
next
  assume a: "openRequests (withdrawalRequests d) userId = []
        \<and> truthy amount \<and> \<not> numLessEq (toNumber rt amount) (Finite 0)
        \<and> \<not> numLess (toNumber rt amount) (minWithdrawal rt minEnv)
        \<and> \<not> greaterThanBalance rt amount d userId
        \<and> find (\<lambda>b. bd_userId b = userId) (bankData d) \<noteq> None
        \<and> (\<exists>v. decimalInput rt amount = Some v \<and> fitsDecimal_10_2 v)
        \<and> cuid \<notin> set (map wr_id (withdrawalRequests d))"
  then obtain v where v: "decimalInput rt amount = Some v" "fitsDecimal_10_2 v" by blast
  from a v show "\<exists>w. snd (withdraw rt minEnv cuid now d userId amount) = Inr w"
    using withdraw_accepts [where amount = amount and rt = rt and minEnv = minEnv and d = d
        and userId = userId and v = v and cuid = cuid and now = now]
    by simp
qed

theorem withdraw_one_open_request_witness:
  "oneOpenPerUser (withdrawalRequests dbFunded)
   \<and> openRequests (withdrawalRequests dbFunded) ''u1'' = []
   \<and> truthy (JNum 60) \<and> \<not> numLessEq (toNumber runtimeOfExamples (JNum 60)) (Finite 0)
   \<and> \<not> numLess (toNumber runtimeOfExamples (JNum 60)) (minWithdrawal runtimeOfExamples None)
   \<and> \<not> greaterThanBalance runtimeOfExamples (JNum 60) dbFunded ''u1''
   \<and> find (\<lambda>b. bd_userId b = ''u1'') (bankData dbFunded) \<noteq> None
   \<and> decimalInput runtimeOfExamples (JNum 60) = Some 60 \<and> fitsDecimal_10_2 60
   \<and> ''w0'' \<notin> set (map wr_id (withdrawalRequests dbFunded))
   \<and> (\<exists>w. snd (withdraw runtimeOfExamples None ''w0'' 1000 dbFunded ''u1'' (JNum 60)) = Inr w
          \<and> withdrawalRequests dbRequested = [w]
          \<and> wr_status w = W_PENDING \<and> wr_amount w = 60
          \<and> wr_bankData w = bankSnapshot bankOfU1)
   \<and> (\<exists>w \<in> set (withdrawalRequests dbRequested).
          wr_userId w = ''u1'' \<and> nonTerminal (wr_status w))
   \<and> \<not> greaterThanBalance runtimeOfExamples (JNum 60) dbRequested ''u1''
   \<and> fst (withdraw runtimeOfExamples None ''w1'' 1500 dbRequested ''u1'' (JNum 60)) = dbRequested
   \<and> failsWith (snd (withdraw runtimeOfExamples None ''w1'' 1500 dbRequested ''u1'' (JNum 60))) 400
   \<and> snd (withdraw runtimeOfExamples None ''w1'' 1500 dbRequested ''u1'' (JNum 60)) =
       Inl (createError (''Voc'' @ e_circ @ '' j'' @ a_acute @ '' possui uma solicita'' @ c_cedil
                         @ a_tilde @ ''o de saque pendente'') 400)
   \<and> oneOpenPerUser (withdrawalRequests
        (run runtimeOfExamples None dbFunded
           [PostWithdraw ''w0'' 1000 ''u1'' (JNum 60),
            PatchWithdrawal 1200 ''w0'' (JStr ''REJECTED'') JNull,
            PostWithdraw ''w1'' 1500 ''u1'' (JNum 60)]))
   \<and> map wr_id (withdrawalRequests
        (run runtimeOfExamples None dbFunded
           [PostWithdraw ''w0'' 1000 ''u1'' (JNum 60),
            PatchWithdrawal 1200 ''w0'' (JStr ''REJECTED'') JNull,
            PostWithdraw ''w1'' 1500 ''u1'' (JNum 60)])) = [''w0'']"
proof -
  let ?rs = "[PostWithdraw ''w0'' 1000 ''u1'' (JNum 60),
            PatchWithdrawal 1200 ''w0'' (JStr ''REJECTED'') JNull,
            PostWithdraw ''w1'' 1500 ''u1'' (JNum 60)]"
  have inv: "oneOpenPerUser (withdrawalRequests dbFunded)"
    by (simp add: oneOpenPerUser_def dbFunded_fields)
  have pre: "openRequests (withdrawalRequests dbFunded) ''u1'' = []
   \<and> truthy (JNum 60) \<and> \<not> numLessEq (toNumber runtimeOfExamples (JNum 60)) (Finite 0)
   \<and> \<not> numLess (toNumber runtimeOfExamples (JNum 60)) (minWithdrawal runtimeOfExamples None)
   \<and> \<not> greaterThanBalance runtimeOfExamples (JNum 60) dbFunded ''u1''
   \<and> find (\<lambda>b. bd_userId b = ''u1'') (bankData dbFunded) \<noteq> None
   \<and> decimalInput runtimeOfExamples (JNum 60) = Some 60 \<and> fitsDecimal_10_2 60
   \<and> ''w0'' \<notin> set (map wr_id (withdrawalRequests dbFunded))"
    by (simp add: openRequests_def dbFunded_fields numLessEq_def minWithdrawal_def
        greaterThanBalance_number balance_examples bankOfU1_user decimalInput_def
        roundScale2_examples)
  have bank: "find (\<lambda>b. bd_userId b = ''u1'') (bankData dbFunded) = Some bankOfU1"
    by (simp add: dbFunded_fields bankOfU1_user)
  note t1 = withdraw_one_open_request [where d = dbFunded and rt = runtimeOfExamples
      and minEnv = None and cuid = "''w0''" and now = 1000 and userId = "''u1''"
      and amount = "JNum 60" and rs = ?rs]
  from t1 pre obtain w
    where w: "snd (withdraw runtimeOfExamples None ''w0'' 1000 dbFunded ''u1'' (JNum 60)) = Inr w"
    by blast
  from t1 w have w1: "dbRequested = dbFunded\<lparr>withdrawalRequests := withdrawalRequests dbFunded @ [w]\<rparr>"
    unfolding dbRequested_def by blast
  from t1 w have w2: "wr_status w = W_PENDING" "wr_userId w = ''u1''"
    by blast+
  from t1 w obtain b where "find (\<lambda>b. bd_userId b = ''u1'') (bankData dbFunded) = Some b"
    "wr_bankData w = bankSnapshot b" by blast
  with bank have w3: "wr_bankData w = bankSnapshot bankOfU1" by simp
  from t1 w obtain v where "decimalInput runtimeOfExamples (JNum 60) = Some v"
    "wr_amount w = roundScale2 v" by blast
  then have w4: "wr_amount w = 60" by (simp add: decimalInput_def roundScale2_examples)
  have rows: "withdrawalRequests dbRequested = [w]" by (simp add: w1 dbFunded_fields)
  from t1 inv have inv1: "oneOpenPerUser (withdrawalRequests (run runtimeOfExamples None dbFunded ?rs))"
    by blast
  have opn: "\<exists>w \<in> set (withdrawalRequests dbRequested). wr_userId w = ''u1'' \<and> nonTerminal (wr_status w)"
    using rows w2 by (simp add: nonTerminal_def)
  have bal: "\<not> greaterThanBalance runtimeOfExamples (JNum 60) dbRequested ''u1''"
    by (simp add: greaterThanBalance_number availableBalance_def availableCommissions_def
        dbRequested_eq dbFunded_fields commissionOfU1_fields)
  note t2 = withdraw_one_open_request [where d = dbRequested and rt = runtimeOfExamples
      and minEnv = None and cuid = "''w1''" and now = 1500 and userId = "''u1''"
      and amount = "JNum 60" and rs = "[]"]
  from t2 opn
  have rej: "fst (withdraw runtimeOfExamples None ''w1'' 1500 dbRequested ''u1'' (JNum 60)) = dbRequested
   \<and> failsWith (snd (withdraw runtimeOfExamples None ''w1'' 1500 dbRequested ''u1'' (JNum 60))) 400"
    by blast
  have ex: "\<exists>w. snd (withdraw runtimeOfExamples None ''w0'' 1000 dbFunded ''u1'' (JNum 60)) = Inr w
          \<and> withdrawalRequests dbRequested = [w]
          \<and> wr_status w = W_PENDING \<and> wr_amount w = 60
          \<and> wr_bankData w = bankSnapshot bankOfU1"
    using w rows w2 w3 w4 by blast
  have ids: "map wr_id (withdrawalRequests (run runtimeOfExamples None dbFunded ?rs)) = [''w0'']"
    using rej
    by (simp add: run_def dbRequested_def [symmetric] updateWithdrawal_writes_nothing)
       (simp add: dbRequested_eq)
  show ?thesis
    apply (intro conjI)
    using inv pre ex inv1 opn bal rej second_request_message ids by simp_all
qed

section \<open>Coupons\<close>

lemma dbShop_fields:
  "coupons dbShop = [couponSave10, couponFix50]" "products dbShop = [productTea]"
  "userCoupons dbShop = []" "orders dbShop = []"
  by (simp_all add: dbShop_def emptyDb_def)

lemma asciiUpperCase_save10: "asciiUpperCase ''save10'' = ''SAVE10''"
  by (simp add: asciiUpperCase_def asciiUpperChar_def)

lemma validate_save10:
  "validateCoupon asciiUpperCase noFmt 5000 dbShop ''u1'' (Some ''save10'') 300 =
     Inr \<lparr>cr_code = ''SAVE10'', cr_name = ''Dez por cento'', cr_type = PERCENTAGE,
          cr_value = 10, cr_discount = 20\<rparr>"
  by (simp add: validateCoupon_def asciiUpperCase_save10 findValidCoupon_def findUserCoupon_def
      dbShop_fields couponSave10_def usageLimit_def computeDiscount_def Let_def)

text \<open>
  C9. When the validation of a coupon succeeds for the cart total \<open>cartTotal\<close>, the
  discount of the reply is at most \<open>cartTotal\<close>; for a PERCENTAGE coupon with
  \<open>maximumDiscount\<close> set it is at most that maximum, and for a FIXED_AMOUNT coupon it is
  the smaller of the coupon's value and \<open>cartTotal\<close>. The statement is about the order
  of the numbers only, so it does not depend on how the products are rounded.
\<close>

theorem validateCoupon_discount:
  "validateCoupon toUpperCase fmt now d userId c cartTotal = Inr r \<Longrightarrow>
     cr_discount r \<le> cartTotal
     \<and> (\<exists>coupon. findValidCoupon now d (toUpperCase (the c)) = Some coupon
          \<and> cr_type r = cp_type coupon \<and> cr_value r = cp_value coupon
          \<and> (cp_type coupon = PERCENTAGE \<longrightarrow>
                (\<forall>m. cp_maximumDiscount coupon = Some m \<longrightarrow> cr_discount r \<le> m))
          \<and> (cp_type coupon = FIXED_AMOUNT \<longrightarrow> cr_discount r = min (cp_value coupon) cartTotal))"
proof -
  assume ok: "validateCoupon toUpperCase fmt now d userId c cartTotal = Inr r"
  then obtain coupon where found: "findValidCoupon now d (toUpperCase (the c)) = Some coupon"
    by (auto simp: validateCoupon_def split: if_splits option.splits)
  let ?discount = "computeDiscount coupon cartTotal"
  from ok found have r: "r = \<lparr>cr_code = cp_code coupon, cr_name = cp_name coupon,
        cr_type = cp_type coupon, cr_value = cp_value coupon,
        cr_discount = (if ?discount > cartTotal then cartTotal else ?discount)\<rparr>"
    by (auto simp: validateCoupon_def Let_def split: if_splits)
  have clamp: "cr_discount r \<le> cartTotal" by (simp add: r)
  have cap: "cr_discount r \<le> m" if "cp_type coupon = PERCENTAGE" "cp_maximumDiscount coupon = Some m" for m
    using that by (simp add: r computeDiscount_def Let_def)
  have fixed: "cr_discount r = min (cp_value coupon) cartTotal" if "cp_type coupon = FIXED_AMOUNT"
    using that by (simp add: r computeDiscount_def min_def)
  from found clamp cap fixed show ?thesis by (auto simp: r)
qed

theorem validateCoupon_discount_witness:
  "validateCoupon asciiUpperCase noFmt 5000 dbShop ''u1'' (Some ''save10'') 300 =
     Inr \<lparr>cr_code = ''SAVE10'', cr_name = ''Dez por cento'', cr_type = PERCENTAGE,
          cr_value = 10, cr_discount = 20\<rparr>
   \<and> (20::rat) \<le> 300
   \<and> findValidCoupon 5000 dbShop (asciiUpperCase ''save10'') = Some couponSave10
   \<and> cp_maximumDiscount couponSave10 = Some 20"
  using validateCoupon_discount [OF validate_save10] validate_save10
  by (simp add: asciiUpperCase_save10 findValidCoupon_def dbShop_fields couponSave10_def)

subsection \<open>The upsert of the usage count\<close>

lemma find_Some_set: "find P xs = Some x \<Longrightarrow> x \<in> set xs \<and> P x"
  by (auto simp: find_Some_iff)

lemma find_map_same:
  assumes "\<And>x. x \<in> set xs \<Longrightarrow> P (f x) = P x" "\<And>x. x \<in> set xs \<Longrightarrow> P x \<Longrightarrow> f x = x"
  shows "find P (map f xs) = find P xs"
  using assms by (induction xs) auto

lemma find_map_first:
  assumes "\<And>x. x \<in> set xs \<Longrightarrow> P (f x) = P x"
  shows "find P (map f xs) = map_option f (find P xs)"
  using assms by (induction xs) auto

lemma distinct_map_eq:
  "distinct (map f xs) \<Longrightarrow> x \<in> set xs \<Longrightarrow> y \<in> set xs \<Longrightarrow> f x = f y \<Longrightarrow> x = y"
  by (meson distinct_map inj_on_def)

lemma upsert_tables:
  assumes "upsertUserCoupon cuid d u k = Inr d2"
  shows "coupons d2 = coupons d" "orders d2 = orders d" "withdrawalRequests d2 = withdrawalRequests d"
  using assms by (auto simp: upsertUserCoupon_def split: option.splits if_splits)

lemma upsert_count:
  assumes "upsertUserCoupon cuid d u k = Inr d2"
  shows "usageCountOf d2 u k = usageCountOf d u k + 1"
proof (cases "findUserCoupon d u k")
  case None
  with assms have d2: "d2 = d\<lparr>userCoupons := userCoupons d @
                   [\<lparr>uc_id = cuid, uc_userId = u, uc_couponId = k, uc_usageCount = 1\<rparr>]\<rparr>"
    by (auto simp: upsertUserCoupon_def split: if_splits)
  from None show ?thesis
    by (simp add: d2 usageCountOf_def findUserCoupon_def find_append)
next
  case (Some uc)
  with assms have d2: "d2 = d\<lparr>userCoupons :=
                 map (\<lambda>uc. if uc_userId uc = u \<and> uc_couponId uc = k
                            then uc\<lparr>uc_usageCount := uc_usageCount uc + 1\<rparr> else uc)
                     (userCoupons d)\<rparr>"
    by (auto simp: upsertUserCoupon_def)
  have "find (\<lambda>uc. uc_userId uc = u \<and> uc_couponId uc = k)
          (map (\<lambda>uc. if uc_userId uc = u \<and> uc_couponId uc = k
                            then uc\<lparr>uc_usageCount := uc_usageCount uc + 1\<rparr> else uc) (userCoupons d))
        = map_option (\<lambda>uc. if uc_userId uc = u \<and> uc_couponId uc = k
                            then uc\<lparr>uc_usageCount := uc_usageCount uc + 1\<rparr> else uc)
            (find (\<lambda>uc. uc_userId uc = u \<and> uc_couponId uc = k) (userCoupons d))"
    by (rule find_map_first) auto
  with Some show ?thesis
    using find_Some_set [of "\<lambda>uc. uc_userId uc = u \<and> uc_couponId uc = k" "userCoupons d" uc]
    by (auto simp: d2 usageCountOf_def findUserCoupon_def)
qed

lemma upsert_other:
  assumes "upsertUserCoupon cuid d u k = Inr d2" "(u', k') \<noteq> (u, k)"
  shows "findUserCoupon d2 u' k' = findUserCoupon d u' k'"
proof (cases "findUserCoupon d u k")
  case None
  with assms have d2: "d2 = d\<lparr>userCoupons := userCoupons d @
                   [\<lparr>uc_id = cuid, uc_userId = u, uc_couponId = k, uc_usageCount = 1\<rparr>]\<rparr>"
    by (auto simp: upsertUserCoupon_def split: if_splits)
  from assms(2) show ?thesis
    by (auto simp: d2 findUserCoupon_def find_append split: option.splits)
next
  case (Some uc)
  with assms have d2: "d2 = d\<lparr>userCoupons :=
                 map (\<lambda>uc. if uc_userId uc = u \<and> uc_couponId uc = k
                            then uc\<lparr>uc_usageCount := uc_usageCount uc + 1\<rparr> else uc)
                     (userCoupons d)\<rparr>"
    by (auto simp: upsertUserCoupon_def)
  have "find (\<lambda>uc. uc_userId uc = u' \<and> uc_couponId uc = k')
          (map (\<lambda>uc. if uc_userId uc = u \<and> uc_couponId uc = k
                            then uc\<lparr>uc_usageCount := uc_usageCount uc + 1\<rparr> else uc) (userCoupons d))
        = find (\<lambda>uc. uc_userId uc = u' \<and> uc_couponId uc = k') (userCoupons d)"
    using assms(2) by (intro find_map_same) auto
  then show ?thesis by (simp add: d2 findUserCoupon_def)
qed

lemma upsert_pairs:
  assumes "upsertUserCoupon cuid d u k = Inr d2"
    and "distinct (map (\<lambda>uc. (uc_userId uc, uc_couponId uc)) (userCoupons d))"
  shows "distinct (map (\<lambda>uc. (uc_userId uc, uc_couponId uc)) (userCoupons d2))"
proof (cases "findUserCoupon d u k")
  case None
  with assms have d2: "d2 = d\<lparr>userCoupons := userCoupons d @
                   [\<lparr>uc_id = cuid, uc_userId = u, uc_couponId = k, uc_usageCount = 1\<rparr>]\<rparr>"
    by (auto simp: upsertUserCoupon_def split: if_splits)
  from None have "\<forall>uc \<in> set (userCoupons d). \<not> (uc_userId uc = u \<and> uc_couponId uc = k)"
    by (simp add: findUserCoupon_def find_None_iff)
  with assms(2) show ?thesis by (auto simp: d2)
next
  case (Some uc)
  with assms have d2: "d2 = d\<lparr>userCoupons :=
                 map (\<lambda>uc. if uc_userId uc = u \<and> uc_couponId uc = k
                            then uc\<lparr>uc_usageCount := uc_usageCount uc + 1\<rparr> else uc)
                     (userCoupons d)\<rparr>"
    by (auto simp: upsertUserCoupon_def)
  have "map (\<lambda>uc. (uc_userId uc, uc_couponId uc)) (userCoupons d2)
        = map (\<lambda>uc. (uc_userId uc, uc_couponId uc)) (userCoupons d)"
    by (simp add: d2 o_def cong: map_cong) 
  with assms(2) show ?thesis by simp
qed

lemma withinLimit_iff:
  "withinLimit limitOf d \<longleftrightarrow>
     (\<forall>uc \<in> set (userCoupons d). \<forall>c \<in> set (coupons d).
        cp_id c = uc_couponId uc \<longrightarrow> uc_usageCount uc \<le> limitOf c)"
  by (simp add: withinLimit_def list_all_iff)

lemma upsert_withinLimit:
  assumes up: "upsertUserCoupon cuid d u k = Inr d2"
    and dist: "distinct (map (\<lambda>uc. (uc_userId uc, uc_couponId uc)) (userCoupons d))"
    and room: "\<forall>c \<in> set (coupons d). cp_id c = k \<longrightarrow> usageCountOf d u k + 1 \<le> limitOf c"
    and inv: "withinLimit limitOf d"
  shows "withinLimit limitOf d2"
proof (cases "findUserCoupon d u k")
  case None
  with up have d2: "d2 = d\<lparr>userCoupons := userCoupons d @
                   [\<lparr>uc_id = cuid, uc_userId = u, uc_couponId = k, uc_usageCount = 1\<rparr>]\<rparr>"
    by (auto simp: upsertUserCoupon_def split: if_splits)
  from None have "usageCountOf d u k = 0" by (simp add: usageCountOf_def)
  with room inv show ?thesis by (auto simp: withinLimit_iff d2)
next
  case (Some uc0)
  with up have d2: "d2 = d\<lparr>userCoupons :=
                 map (\<lambda>uc. if uc_userId uc = u \<and> uc_couponId uc = k
                            then uc\<lparr>uc_usageCount := uc_usageCount uc + 1\<rparr> else uc)
                     (userCoupons d)\<rparr>"
    by (auto simp: upsertUserCoupon_def)
  from Some have uc0: "uc0 \<in> set (userCoupons d)" "uc_userId uc0 = u" "uc_couponId uc0 = k"
    using find_Some_set [of "\<lambda>uc. uc_userId uc = u \<and> uc_couponId uc = k" "userCoupons d" uc0]
    by (simp_all add: findUserCoupon_def)
  from Some have cnt: "usageCountOf d u k = uc_usageCount uc0" by (simp add: usageCountOf_def)
  have same: "uc = uc0" if "uc \<in> set (userCoupons d)" "uc_userId uc = u" "uc_couponId uc = k" for uc
    using distinct_map_eq [OF dist that(1) uc0(1)] that uc0 by simp
  show ?thesis
    unfolding withinLimit_iff
  proof (intro ballI impI)
    fix uc' c
    assume a: "uc' \<in> set (userCoupons d2)" "c \<in> set (coupons d2)" "cp_id c = uc_couponId uc'"
    from a(1) obtain uc where uc: "uc \<in> set (userCoupons d)"
      "uc' = (if uc_userId uc = u \<and> uc_couponId uc = k
                            then uc\<lparr>uc_usageCount := uc_usageCount uc + 1\<rparr> else uc)"
      by (auto simp: d2)
    from a(2) have c: "c \<in> set (coupons d)" by (simp add: d2)
    show "uc_usageCount uc' \<le> limitOf c"
    proof (cases "uc_userId uc = u \<and> uc_couponId uc = k")
      case True
      with same uc have "uc = uc0" by blast
      with True uc a(3) room c cnt show ?thesis by auto
    next
      case False
      with uc a(3) c inv show ?thesis by (auto simp: withinLimit_iff)
    qed
  qed
qed

subsection \<open>The order handler and the usage count\<close>

lemma validateItems_error:
  "validateItems d s acc items = Inl e \<Longrightarrow> failsWith (Inl e) 400 \<or> failsWith (Inl e) 404"
  by (induction d s acc items rule: validateItems.induct)
     (auto simp: failsWith_createError split: option.splits if_splits)

lemma applyCoupon_ok:
  "applyCoupon fmt now d userId cde subtotal = Inr discount \<Longrightarrow>
     \<exists>coupon. findValidCoupon now d cde = Some coupon
        \<and> (findUserCoupon d userId (cp_id coupon) = None
             \<or> usageCountOf d userId (cp_id coupon) < usageLimit coupon)"
  by (auto simp: applyCoupon_def usageCountOf_def split: option.splits if_splits)

text \<open>The outcomes of the handler.\<close>

lemma createOrder_cases:
  assumes "createOrder fmt now oid ucid onum d userId items addr pm cc = (d', r)"
  shows "(d' = d \<and> (\<exists>e. r = Inl e))
       \<or> ((cc = None \<or> cc = Some []) \<and> (\<exists>order. d' = d\<lparr>orders := orders d @ [order]\<rparr> \<and> r = Inr order))
       \<or> (\<exists>cde order subtotal discount. cc = Some cde \<and> cde \<noteq> []
             \<and> applyCoupon fmt now d userId cde subtotal = Inr discount
             \<and> recordCouponUse ucid (d\<lparr>orders := orders d @ [order]\<rparr>) userId cde order = (d', r))"
  using assms
  by (auto simp: createOrder_def Let_def split: if_splits sum.splits option.splits prod.splits)

lemma ledger_orders [simp]:
  "ledgerInvariant (d\<lparr>orders := x\<rparr>) = ledgerInvariant d"
  by (simp add: ledgerInvariant_def couponConstraints_def limitsNonNegative_def withinLimit_def)

lemma usageCountOf_orders [simp]:
  "usageCountOf (d\<lparr>orders := x\<rparr>) u k = usageCountOf d u k"
  by (simp add: usageCountOf_def findUserCoupon_def)

lemma findUserCoupon_orders [simp]:
  "findUserCoupon (d\<lparr>orders := x\<rparr>) u k = findUserCoupon d u k"
  by (simp add: findUserCoupon_def)

lemma usageLimit_ge_1:
  assumes "limitsNonNegative d" "c \<in> set (coupons d)"
  shows "1 \<le> usageLimit c"
  using assms by (auto simp: limitsNonNegative_def list_all_iff usageLimit_def split: option.splits)

lemma valid_coupon_is_the_coupon:
  assumes "couponConstraints d" "findValidCoupon now d cde = Some coupon"
  shows "find (\<lambda>cp. cp_code cp = cde) (coupons d) = Some coupon"
proof -
  from assms(2) have c: "coupon \<in> set (coupons d)" "cp_code coupon = cde"
    using find_Some_set [of _ "coupons d" coupon] by (auto simp: findValidCoupon_def)
  then have "find (\<lambda>cp. cp_code cp = cde) (coupons d) \<noteq> None"
    by (auto simp: find_None_iff)
  then obtain cp where cp: "find (\<lambda>cp. cp_code cp = cde) (coupons d) = Some cp" by auto
  then have "cp \<in> set (coupons d)" "cp_code cp = cde"
    using find_Some_set [of "\<lambda>cp. cp_code cp = cde" "coupons d" cp] by auto
  with c assms(1) have "cp = coupon"
    using distinct_map_eq [of cp_code "coupons d" cp coupon] by (simp add: couponConstraints_def)
  with cp show ?thesis by simp
qed

lemma recordCouponUse_ledger:
  assumes inv: "ledgerInvariant d1"
    and valid: "findValidCoupon now d1 cde = Some coupon"
    and room: "findUserCoupon d1 userId (cp_id coupon) = None
             \<or> usageCountOf d1 userId (cp_id coupon) < usageLimit coupon"
  shows "ledgerInvariant (fst (recordCouponUse ucid d1 userId cde order))"
proof -
  from inv have cons: "couponConstraints d1" and nn: "limitsNonNegative d1"
    and wl: "withinLimit usageLimit d1" by (simp_all add: ledgerInvariant_def)
  have f: "find (\<lambda>cp. cp_code cp = cde) (coupons d1) = Some coupon"
    by (rule valid_coupon_is_the_coupon [OF cons valid])
  then have cin: "coupon \<in> set (coupons d1)"
    using find_Some_set [of _ "coupons d1" coupon] by simp
  show ?thesis
  proof (cases "upsertUserCoupon ucid d1 userId (cp_id coupon)")
    case (Inl e)
    with f inv show ?thesis by (simp add: recordCouponUse_def)
  next
    case (Inr d2)
    have r: "\<forall>c \<in> set (coupons d1). cp_id c = cp_id coupon \<longrightarrow>
               usageCountOf d1 userId (cp_id coupon) + 1 \<le> usageLimit c"
    proof (intro ballI impI)
      fix c assume c: "c \<in> set (coupons d1)" "cp_id c = cp_id coupon"
      with cin cons have "c = coupon"
        using distinct_map_eq [of cp_id "coupons d1" c coupon] by (simp add: couponConstraints_def)
      moreover have "usageCountOf d1 userId (cp_id coupon) + 1 \<le> usageLimit coupon"
        using room usageLimit_ge_1 [OF nn cin] by (auto simp: usageCountOf_def)
      ultimately show "usageCountOf d1 userId (cp_id coupon) + 1 \<le> usageLimit c" by simp
    qed
    from cons have dist: "distinct (map (\<lambda>uc. (uc_userId uc, uc_couponId uc)) (userCoupons d1))"
      by (simp add: couponConstraints_def)
    have "withinLimit usageLimit d2"
      by (rule upsert_withinLimit [OF Inr dist r wl])
    moreover have "couponConstraints d2"
      using upsert_pairs [OF Inr dist] upsert_tables(1) [OF Inr] cons
      by (simp add: couponConstraints_def)
    moreover have "limitsNonNegative d2"
      using upsert_tables(1) [OF Inr] nn by (simp add: limitsNonNegative_def)
    ultimately show ?thesis using f Inr by (simp add: recordCouponUse_def ledgerInvariant_def)
  qed
qed

lemma findValidCoupon_orders [simp]:
  "findValidCoupon now (d\<lparr>orders := x\<rparr>) cde = findValidCoupon now d cde"
  by (simp add: findValidCoupon_def)

lemma createOrder_ledger:
  assumes "ledgerInvariant d"
  shows "ledgerInvariant (fst (createOrder fmt now oid ucid onum d userId items addr pm cc))"
proof -
  obtain d' r where dr: "createOrder fmt now oid ucid onum d userId items addr pm cc = (d', r)"
    by (cases "createOrder fmt now oid ucid onum d userId items addr pm cc") auto
  from createOrder_cases [OF dr]
  consider "d' = d"
    | order where "d' = d\<lparr>orders := orders d @ [order]\<rparr>"
    | cde order subtotal discount where "applyCoupon fmt now d userId cde subtotal = Inr discount"
        "recordCouponUse ucid (d\<lparr>orders := orders d @ [order]\<rparr>) userId cde order = (d', r)"
    by blast
  then have "ledgerInvariant d'"
  proof cases
    case 1
    with assms show ?thesis by simp
  next
    case 2
    with assms show ?thesis by simp
  next
    case 3
    from applyCoupon_ok [OF 3(1)] obtain coupon where
      c: "findValidCoupon now d cde = Some coupon"
         "findUserCoupon d userId (cp_id coupon) = None
             \<or> usageCountOf d userId (cp_id coupon) < usageLimit coupon" by blast
    have "ledgerInvariant (fst (recordCouponUse ucid (d\<lparr>orders := orders d @ [order]\<rparr>) userId cde order))"
      by (rule recordCouponUse_ledger [where now = now and coupon = coupon]) (use assms c in simp_all)
    with 3(2) show ?thesis by simp
  qed
  with dr show ?thesis by simp
qed

lemma ordersRun_ledger:
  "ledgerInvariant d \<Longrightarrow> ledgerInvariant (ordersRun fmt d rqs)"
  by (induction rqs arbitrary: d) (simp_all add: placeOrder_def createOrder_ledger)

lemma createOrder_limit_reached:
  assumes "cc = Some cde" "cde \<noteq> []"
    and "findValidCoupon now d cde = Some coupon"
    and "findUserCoupon d userId (cp_id coupon) = Some uc"
    and "uc_usageCount uc \<ge> usageLimit coupon"
  shows "fst (createOrder fmt now oid ucid onum d userId items addr pm cc) = d
       \<and> (failsWith (snd (createOrder fmt now oid ucid onum d userId items addr pm cc)) 400
          \<or> failsWith (snd (createOrder fmt now oid ucid onum d userId items addr pm cc)) 404)"
proof -
  have a: "applyCoupon fmt now d userId cde subtotal =
             Inl (createError ''Limite de uso do cupom excedido'' 400)" for subtotal
    using assms by (simp add: applyCoupon_def)
  show ?thesis
    using assms(1,2) validateItems_error [of d 0 "[]" items]
    by (auto simp: createOrder_def a failsWith_createError split: sum.splits)
qed

lemma createOrder_counts:
  assumes ok: "snd (createOrder fmt now oid ucid onum d userId items addr pm cc) = Inr order"
    and cc: "cc = Some cde" "cde \<noteq> []"
    and cons: "couponConstraints d"
  shows "\<exists>coupon. findValidCoupon now d cde = Some coupon
          \<and> usageCountOf (fst (createOrder fmt now oid ucid onum d userId items addr pm cc))
               userId (cp_id coupon) = usageCountOf d userId (cp_id coupon) + 1
          \<and> (\<forall>u k. (u, k) \<noteq> (userId, cp_id coupon) \<longrightarrow>
                usageCountOf (fst (createOrder fmt now oid ucid onum d userId items addr pm cc)) u k
                  = usageCountOf d u k)"
proof -
  obtain d' r where dr: "createOrder fmt now oid ucid onum d userId items addr pm cc = (d', r)"
    by (cases "createOrder fmt now oid ucid onum d userId items addr pm cc") auto
  with ok have r: "r = Inr order" by simp
  from createOrder_cases [OF dr] r cc obtain order' subtotal discount where
    a: "applyCoupon fmt now d userId cde subtotal = Inr discount"
    and u: "recordCouponUse ucid (d\<lparr>orders := orders d @ [order']\<rparr>) userId cde order' = (d', r)"
    by auto
  from applyCoupon_ok [OF a] obtain coupon where c: "findValidCoupon now d cde = Some coupon"
    by blast
  let ?d1 = "d\<lparr>orders := orders d @ [order']\<rparr>"
  have f: "find (\<lambda>cp. cp_code cp = cde) (coupons ?d1) = Some coupon"
    using valid_coupon_is_the_coupon [OF cons c] by simp
  from u r f have up: "upsertUserCoupon ucid ?d1 userId (cp_id coupon) = Inr d'"
    by (auto simp: recordCouponUse_def split: sum.splits)
  have "usageCountOf d' userId (cp_id coupon) = usageCountOf d userId (cp_id coupon) + 1"
    using upsert_count [OF up] by simp
  moreover have "\<forall>u k. (u, k) \<noteq> (userId, cp_id coupon) \<longrightarrow> usageCountOf d' u k = usageCountOf d u k"
    using upsert_other [OF up] by (simp add: usageCountOf_def)
  ultimately show ?thesis using c dr by auto
qed

subsection \<open>Orders of the example shop\<close>

lemma couponSave10_fields:
  "cp_id couponSave10 = ''k1''" "cp_code couponSave10 = ''SAVE10''"
  "cp_type couponSave10 = PERCENTAGE" "cp_value couponSave10 = 10"
  "cp_minimumAmount couponSave10 = Some 100" "cp_maximumDiscount couponSave10 = Some 20"
  "cp_startDate couponSave10 = 0" "cp_endDate couponSave10 = 9000"
  "cp_usageLimitPerUser couponSave10 = Some 1" "cp_isActive couponSave10"
  by (simp_all add: couponSave10_def)

lemma couponFix50_fields:
  "cp_id couponFix50 = ''k2''" "cp_code couponFix50 = ''FIX50''"
  "cp_type couponFix50 = FIXED_AMOUNT" "cp_value couponFix50 = 50"
  "cp_minimumAmount couponFix50 = None" "cp_maximumDiscount couponFix50 = None"
  "cp_startDate couponFix50 = 0" "cp_endDate couponFix50 = 9000"
  "cp_usageLimitPerUser couponFix50 = Some 0" "cp_isActive couponFix50"
  by (simp_all add: couponFix50_def)

lemma productTea_fields:
  "p_id productTea = ''p1''" "p_isActive productTea" "p_trackStock productTea"
  "p_stock productTea = 5" "p_price productTea = 30"
  by (simp_all add: productTea_def)

lemmas shop_simps = dbShop_fields couponSave10_fields couponFix50_fields productTea_fields
  createOrder_def applyCoupon_def recordCouponUse_def upsertUserCoupon_def findValidCoupon_def
  findUserCoupon_def usageLimit_def computeDiscount_def paymentMethodOf_def shipTo_def Let_def

lemma dbOrdered_eq:
  "createOrder noFmt 5000 ''o1'' ''uc1'' ''BC000001AAAAAA'' dbShop ''u1''
            [(''p1'', 4)] shipTo (Some ''PIX'') (Some ''SAVE10'') =
     (dbShop\<lparr>orders :=
        [\<lparr>o_id = ''o1'', o_userId = ''u1'', o_orderNumber = ''BC000001AAAAAA'',
          o_subtotal = 120, o_shippingCost = 0, o_discount = 12, o_total = 108,
          o_status = O_PENDING, o_paymentStatus = P_PENDING, o_paymentMethod = PIX,
          o_shippingAddress = shipTo, o_couponCode = Some ''SAVE10'',
          o_items = [\<lparr>oi_productId = ''p1'', oi_quantity = 4, oi_price = 30\<rparr>],
          o_createdAt = 5000\<rparr>],
       userCoupons := [\<lparr>uc_id = ''uc1'', uc_userId = ''u1'', uc_couponId = ''k1'',
                        uc_usageCount = 1\<rparr>]\<rparr>,
      Inr \<lparr>o_id = ''o1'', o_userId = ''u1'', o_orderNumber = ''BC000001AAAAAA'',
          o_subtotal = 120, o_shippingCost = 0, o_discount = 12, o_total = 108,
          o_status = O_PENDING, o_paymentStatus = P_PENDING, o_paymentMethod = PIX,
          o_shippingAddress = shipTo, o_couponCode = Some ''SAVE10'',
          o_items = [\<lparr>oi_productId = ''p1'', oi_quantity = 4, oi_price = 30\<rparr>],
          o_createdAt = 5000\<rparr>)"
  by (simp add: shop_simps)

lemma dbFix50_rows:
  "userCoupons dbFix50 = [\<lparr>uc_id = ''uc1'', uc_userId = ''u1'', uc_couponId = ''k2'',
                        uc_usageCount = 1\<rparr>]"
  "coupons dbFix50 = [couponSave10, couponFix50]"
  by (simp_all add: dbFix50_def shop_simps)

text \<open>
  C4, as stated, fails for a coupon whose limit per user is set to 0: \<open>|| 1\<close> reads
  the 0 as 1, and a user without a row is not tested at all, so the first order with
  FIX50 is accepted and writes a count of 1 above the limit of 0.
\<close>

theorem usage_limit_counterexample:
  "cp_usageLimitPerUser couponFix50 = Some 0
   \<and> usageCountOf dbShop ''u1'' ''k2'' = 0
   \<and> withinLimit limitAsStated dbShop
   \<and> usageCountOf dbFix50 ''u1'' ''k2'' = 1
   \<and> \<not> withinLimit limitAsStated dbFix50"
  by (simp add: dbFix50_rows dbShop_fields couponSave10_fields couponFix50_fields
      withinLimit_def limitAsStated_def usageCountOf_def findUserCoupon_def)

text \<open>
  C4, amended. With the limit read as the handlers read it (1 when the column is unset
  or 0) and no coupon with a negative limit, every sequence of order requests preserves,
  together with the unique constraints of the two tables, that no row counts more than
  the limit of its coupon. An order with a valid coupon whose row has reached the limit
  is refused with status 400 (404 when a product of the order is missing) and writes
  nothing. An order that is created with a coupon adds exactly one to the count of the
  user and that coupon, which is 1 after the first use, and leaves every other count as
  it was.
\<close>

theorem usage_count_within_limit:
  "(ledgerInvariant d \<longrightarrow> ledgerInvariant (ordersRun fmt d rqs))
   \<and> (cc = Some cde \<and> cde \<noteq> [] \<and> findValidCoupon now d cde = Some coupon
        \<and> findUserCoupon d userId (cp_id coupon) = Some uc
        \<and> uc_usageCount uc \<ge> usageLimit coupon \<longrightarrow>
        fst (createOrder fmt now oid ucid onum d userId items addr pm cc) = d
        \<and> (failsWith (snd (createOrder fmt now oid ucid onum d userId items addr pm cc)) 400
           \<or> failsWith (snd (createOrder fmt now oid ucid onum d userId items addr pm cc)) 404))
   \<and> (snd (createOrder fmt now oid ucid onum d userId items addr pm cc) = Inr order
        \<and> cc = Some cde \<and> cde \<noteq> [] \<and> couponConstraints d \<longrightarrow>
        (\<exists>cp. findValidCoupon now d cde = Some cp
          \<and> usageCountOf (fst (createOrder fmt now oid ucid onum d userId items addr pm cc))
               userId (cp_id cp) = usageCountOf d userId (cp_id cp) + 1
          \<and> (\<forall>u k. (u, k) \<noteq> (userId, cp_id cp) \<longrightarrow>
                usageCountOf (fst (createOrder fmt now oid ucid onum d userId items addr pm cc)) u k
                  = usageCountOf d u k)))"
proof (intro conjI impI)
  assume "ledgerInvariant d"
  then show "ledgerInvariant (ordersRun fmt d rqs)" by (rule ordersRun_ledger)
next
  assume a: "cc = Some cde \<and> cde \<noteq> [] \<and> findValidCoupon now d cde = Some coupon
        \<and> findUserCoupon d userId (cp_id coupon) = Some uc
        \<and> uc_usageCount uc \<ge> usageLimit coupon"
  from createOrder_limit_reached [of cc cde now d coupon userId uc fmt oid ucid onum items addr pm] a
  show "fst (createOrder fmt now oid ucid onum d userId items addr pm cc) = d"
    and "failsWith (snd (createOrder fmt now oid ucid onum d userId items addr pm cc)) 400
           \<or> failsWith (snd (createOrder fmt now oid ucid onum d userId items addr pm cc)) 404"
    by blast+
next
  assume a: "snd (createOrder fmt now oid ucid onum d userId items addr pm cc) = Inr order
        \<and> cc = Some cde \<and> cde \<noteq> [] \<and> couponConstraints d"
  then show "\<exists>cp. findValidCoupon now d cde = Some cp
          \<and> usageCountOf (fst (createOrder fmt now oid ucid onum d userId items addr pm cc))
               userId (cp_id cp) = usageCountOf d userId (cp_id cp) + 1
          \<and> (\<forall>u k. (u, k) \<noteq> (userId, cp_id cp) \<longrightarrow>
                usageCountOf (fst (createOrder fmt now oid ucid onum d userId items addr pm cc)) u k
                  = usageCountOf d u k)"
    using createOrder_counts [of fmt now oid ucid onum d userId items addr pm cc order cde]
    by blast
qed

lemma dbShop_ledger: "ledgerInvariant dbShop"
  by (simp add: ledgerInvariant_def couponConstraints_def limitsNonNegative_def withinLimit_def
      dbShop_fields couponSave10_fields couponFix50_fields)

lemma dbOrdered_rows:
  "userCoupons dbOrdered = [\<lparr>uc_id = ''uc1'', uc_userId = ''u1'', uc_couponId = ''k1'',
                        uc_usageCount = 1\<rparr>]"
  "coupons dbOrdered = [couponSave10, couponFix50]"
  "products dbOrdered = [productTea]"
  by (simp_all add: dbOrdered_def dbOrdered_eq dbShop_fields)

theorem usage_count_within_limit_witness:
  "ledgerInvariant dbShop
   \<and> couponConstraints dbShop
   \<and> findValidCoupon 5000 dbShop ''SAVE10'' = Some couponSave10
   \<and> usageCountOf dbShop ''u1'' (cp_id couponSave10) = 0
   \<and> \<not> isl (snd (createOrder noFmt 5000 ''o1'' ''uc1'' ''BC000001AAAAAA'' dbShop ''u1''
            [(''p1'', 4)] shipTo (Some ''PIX'') (Some ''SAVE10'')))
   \<and> usageCountOf dbOrdered ''u1'' (cp_id couponSave10) = 1
   \<and> ledgerInvariant dbOrdered
   \<and> findValidCoupon 6000 dbOrdered ''SAVE10'' = Some couponSave10
   \<and> usageLimit couponSave10 = 1
   \<and> fst (createOrder noFmt 6000 ''o2'' ''uc2'' ''BC000002BBBBBB'' dbOrdered ''u1''
            [(''p1'', 4)] shipTo (Some ''PIX'') (Some ''SAVE10'')) = dbOrdered
   \<and> failsWith (snd (createOrder noFmt 6000 ''o2'' ''uc2'' ''BC000002BBBBBB'' dbOrdered ''u1''
            [(''p1'', 4)] shipTo (Some ''PIX'') (Some ''SAVE10''))) 400"
proof -
  let ?rq = "\<lparr>rq_now = 5000, rq_orderId = ''o1'', rq_userCouponId = ''uc1'',
      rq_orderNumber = ''BC000001AAAAAA'', rq_userId = ''u1'', rq_items = [(''p1'', 4)],
      rq_shippingAddress = shipTo, rq_paymentMethod = Some ''PIX'',
      rq_couponCode = Some ''SAVE10''\<rparr>"
  have cons: "couponConstraints dbShop" using dbShop_ledger by (simp add: ledgerInvariant_def)
  have valid: "findValidCoupon 5000 dbShop ''SAVE10'' = Some couponSave10"
    by (simp add: findValidCoupon_def dbShop_fields couponSave10_fields)
  have c0: "usageCountOf dbShop ''u1'' (cp_id couponSave10) = 0"
    by (simp add: usageCountOf_def findUserCoupon_def dbShop_fields)
  have ok: "\<not> isl (snd (createOrder noFmt 5000 ''o1'' ''uc1'' ''BC000001AAAAAA'' dbShop ''u1''
            [(''p1'', 4)] shipTo (Some ''PIX'') (Some ''SAVE10'')))"
    by (simp add: dbOrdered_eq)
  then obtain order where order: "snd (createOrder noFmt 5000 ''o1'' ''uc1'' ''BC000001AAAAAA''
       dbShop ''u1'' [(''p1'', 4)] shipTo (Some ''PIX'') (Some ''SAVE10'')) = Inr order"
    by (cases "snd (createOrder noFmt 5000 ''o1'' ''uc1'' ''BC000001AAAAAA''
       dbShop ''u1'' [(''p1'', 4)] shipTo (Some ''PIX'') (Some ''SAVE10''))") auto
  note t1 = usage_count_within_limit [where d = dbShop and fmt = noFmt and rqs = "[?rq]"
      and now = 5000 and oid = "''o1''" and ucid = "''uc1''" and onum = "''BC000001AAAAAA''"
      and userId = "''u1''" and items = "[(''p1'', 4)]" and addr = shipTo
      and pm = "Some ''PIX''" and cc = "Some ''SAVE10''" and cde = "''SAVE10''" and order = order]
  from t1 dbShop_ledger have inv1: "ledgerInvariant dbOrdered"
    by (simp add: placeOrder_def dbOrdered_def)
  from t1 order cons valid c0 have c1: "usageCountOf dbOrdered ''u1'' (cp_id couponSave10) = 1"
    by (auto simp: dbOrdered_def)
  have valid2: "findValidCoupon 6000 dbOrdered ''SAVE10'' = Some couponSave10"
    by (simp add: findValidCoupon_def dbOrdered_rows couponSave10_fields)
  have lim: "usageLimit couponSave10 = 1"
    by (simp add: usageLimit_def couponSave10_fields)
  have row: "findUserCoupon dbOrdered ''u1'' (cp_id couponSave10) =
      Some \<lparr>uc_id = ''uc1'', uc_userId = ''u1'', uc_couponId = ''k1'', uc_usageCount = 1\<rparr>"
    by (simp add: findUserCoupon_def dbOrdered_rows couponSave10_fields)
  note t2 = usage_count_within_limit [where d = dbOrdered and fmt = noFmt and rqs = "[]"
      and now = 6000 and oid = "''o2''" and ucid = "''uc2''" and onum = "''BC000002BBBBBB''"
      and userId = "''u1''" and items = "[(''p1'', 4)]" and addr = shipTo
      and pm = "Some ''PIX''" and cc = "Some ''SAVE10''" and cde = "''SAVE10''"
      and coupon = couponSave10
      and uc = "\<lparr>uc_id = ''uc1'', uc_userId = ''u1'', uc_couponId = ''k1'', uc_usageCount = 1\<rparr>"]
  from t2 valid2 row lim
  have rej: "fst (createOrder noFmt 6000 ''o2'' ''uc2'' ''BC000002BBBBBB'' dbOrdered ''u1''
            [(''p1'', 4)] shipTo (Some ''PIX'') (Some ''SAVE10'')) = dbOrdered"
    by simp
  have rej4: "failsWith (snd (createOrder noFmt 6000 ''o2'' ''uc2'' ''BC000002BBBBBB'' dbOrdered ''u1''
            [(''p1'', 4)] shipTo (Some ''PIX'') (Some ''SAVE10''))) 400"
    by (simp add: createOrder_def applyCoupon_def valid2 row lim failsWith_createError
        dbOrdered_rows productTea_fields shipTo_def)
  show ?thesis
    using dbShop_ledger cons valid c0 ok c1 inv1 valid2 lim rej rej4 by simp
qed

section \<open>Erasure\<close>

lemma anonymize_fields:
  "u_id (anonymize u) = u_id u"
  "u_firstName (anonymize u) = ''ANONIMIZADO''" "u_lastName (anonymize u) = ''ANONIMIZADO''"
  "u_email (anonymize u) = ''anonimizado_'' @ u_id u @ ''@example.com''"
  "u_cpf (anonymize u) = ''00000000000''" "u_phone (anonymize u) = None"
  "u_birthDate (anonymize u) = None"
  "u_referralCode (anonymize u) = u_referralCode u"
  "u_referredById (anonymize u) = u_referredById u"
  "u_password (anonymize u) = u_password u"
  by (simp_all add: anonymize_def anonymizedEmail_def anonymizedCpf_def)

lemma anonymizeUserData_Inr:
  assumes "anonymizeUserData d userId = Inr d'"
  shows "d' = d\<lparr>users := map (\<lambda>u. if u_id u = userId then anonymize u else u) (users d),
               addresses := filter (\<lambda>a. a_userId a \<noteq> userId) (addresses d),
               bankData := filter (\<lambda>b. bd_userId b \<noteq> userId) (bankData d),
               userConsents := filter (\<lambda>c. uco_userId c \<noteq> userId) (userConsents d)\<rparr>"
  using assms
  by (auto simp: anonymizeUserData_def updateUserAnonymized_def deleteAddresses_def
        deleteBankData_def deleteConsents_def split: if_splits)

lemma anonymizeUserData_succeeds_iff:
  "(\<exists>d'. anonymizeUserData d userId = Inr d') \<longleftrightarrow>
     find (\<lambda>u. u_id u = userId) (users d) \<noteq> None
     \<and> \<not> list_ex (\<lambda>u. u_id u \<noteq> userId \<and> u_email u = anonymizedEmail userId) (users d)
     \<and> \<not> list_ex (\<lambda>u. u_id u \<noteq> userId \<and> u_cpf u = anonymizedCpf) (users d)"
  by (auto simp: anonymizeUserData_def updateUserAnonymized_def deleteAddresses_def
        deleteBankData_def deleteConsents_def split: if_splits)

text \<open>
  What C6 says of the effect holds of a transaction that commits: the user's row is
  still there under its id, with first and last name, e-mail, CPF, phone and birth date
  overwritten by the sentinel values (the e-mail sentinel embeds the user id) and its
  referral code, referrer and password hash untouched; every other user row is as
  before; the user's address, bank data and consent rows are gone; and the orders, the
  commissions and the other tables are unchanged, so every row that refers to the user
  still finds it. The four statements form one transaction: an error of any of them
  yields no new state at all. The transaction commits whenever the user exists and no
  other user holds the sentinel e-mail or CPF.
\<close>

lemma anonymizeUserData_effect:
  "(anonymizeUserData d userId = Inr d' \<longrightarrow>
      map u_id (users d') = map u_id (users d)
      \<and> (\<forall>u' \<in> set (users d'). u_id u' = userId \<longrightarrow>
            u_firstName u' = ''ANONIMIZADO'' \<and> u_lastName u' = ''ANONIMIZADO''
            \<and> u_email u' = ''anonimizado_'' @ userId @ ''@example.com''
            \<and> u_cpf u' = ''00000000000'' \<and> u_phone u' = None \<and> u_birthDate u' = None)
      \<and> list_all2 (\<lambda>u u'. if u_id u = userId
                            then u_referralCode u' = u_referralCode u
                                 \<and> u_referredById u' = u_referredById u
                                 \<and> u_password u' = u_password u
                            else u' = u) (users d) (users d')
      \<and> addresses d' = filter (\<lambda>a. a_userId a \<noteq> userId) (addresses d)
      \<and> bankData d' = filter (\<lambda>b. bd_userId b \<noteq> userId) (bankData d)
      \<and> userConsents d' = filter (\<lambda>c. uco_userId c \<noteq> userId) (userConsents d)
      \<and> orders d' = orders d \<and> commissions d' = commissions d
      \<and> withdrawalRequests d' = withdrawalRequests d \<and> subscriptions d' = subscriptions d
      \<and> billingHistory d' = billingHistory d)
   \<and> (find (\<lambda>u. u_id u = userId) (users d) \<noteq> None
        \<and> \<not> list_ex (\<lambda>u. u_id u \<noteq> userId \<and> u_email u = anonymizedEmail userId) (users d)
        \<and> \<not> list_ex (\<lambda>u. u_id u \<noteq> userId \<and> u_cpf u = anonymizedCpf) (users d)
      \<longrightarrow> (\<exists>d'. anonymizeUserData d userId = Inr d'))"
proof (intro conjI impI)
  assume a: "anonymizeUserData d userId = Inr d'"
  note e = anonymizeUserData_Inr [OF a]
  have keep: "u_id (if u_id u = userId then anonymize u else u) = u_id u" for u
    by (simp add: anonymize_fields)
  show "map u_id (users d') = map u_id (users d)"
    by (simp add: e comp_def keep)
  have us: "users d' = map (\<lambda>u. if u_id u = userId then anonymize u else u) (users d)"
    by (simp add: e)
  show "\<forall>u' \<in> set (users d'). u_id u' = userId \<longrightarrow>
            u_firstName u' = ''ANONIMIZADO'' \<and> u_lastName u' = ''ANONIMIZADO''
            \<and> u_email u' = ''anonimizado_'' @ userId @ ''@example.com''
            \<and> u_cpf u' = ''00000000000'' \<and> u_phone u' = None \<and> u_birthDate u' = None"
  proof (intro ballI impI)
    fix u'
    assume m: "u' \<in> set (users d')" and i: "u_id u' = userId"
    from m us obtain u where u: "u \<in> set (users d)"
      "u' = (if u_id u = userId then anonymize u else u)" by auto
    show "u_firstName u' = ''ANONIMIZADO'' \<and> u_lastName u' = ''ANONIMIZADO''
            \<and> u_email u' = ''anonimizado_'' @ userId @ ''@example.com''
            \<and> u_cpf u' = ''00000000000'' \<and> u_phone u' = None \<and> u_birthDate u' = None"
    proof (cases "u_id u = userId")
      case True
      with u(2) have "u' = anonymize u" by simp
      with True show ?thesis by (simp add: anonymize_fields)
    next
      case False
      with u(2) i show ?thesis by simp
    qed
  qed
  show "list_all2 (\<lambda>u u'. if u_id u = userId
                            then u_referralCode u' = u_referralCode u
                                 \<and> u_referredById u' = u_referredById u
                                 \<and> u_password u' = u_password u
                            else u' = u) (users d) (users d')"
    by (auto simp: us list_all2_map2 anonymize_fields intro!: list.rel_refl_strong)
  show "addresses d' = filter (\<lambda>a. a_userId a \<noteq> userId) (addresses d)"
    "bankData d' = filter (\<lambda>b. bd_userId b \<noteq> userId) (bankData d)"
    "userConsents d' = filter (\<lambda>c. uco_userId c \<noteq> userId) (userConsents d)"
    "orders d' = orders d" "commissions d' = commissions d"
    "withdrawalRequests d' = withdrawalRequests d" "subscriptions d' = subscriptions d"
    "billingHistory d' = billingHistory d"
    by (simp_all add: e)
next
  assume "find (\<lambda>u. u_id u = userId) (users d) \<noteq> None
        \<and> \<not> list_ex (\<lambda>u. u_id u \<noteq> userId \<and> u_email u = anonymizedEmail userId) (users d)
        \<and> \<not> list_ex (\<lambda>u. u_id u \<noteq> userId \<and> u_cpf u = anonymizedCpf) (users d)"
  then show "\<exists>d'. anonymizeUserData d userId = Inr d'"
    by (simp add: anonymizeUserData_succeeds_iff)
qed

lemma dbTwoUsers_fields:
  "users dbTwoUsers = [userAna, userBia]" "addresses dbTwoUsers = [addressOfU1]"
  "bankData dbTwoUsers = [bankOfU1]" "commissions dbTwoUsers = [commissionOfU1]"
  "orders dbTwoUsers = [orderOfU1]" "userConsents dbTwoUsers = [consentOfU1]"
  "subscriptions dbTwoUsers = []" "billingHistory dbTwoUsers = []"
  "withdrawalRequests dbTwoUsers = []" "dataSubjectRequests dbTwoUsers = []"
  "auditLogs dbTwoUsers = []"
  by (simp_all add: dbTwoUsers_def emptyDb_def)

lemma example_users:
  "u_id userAna = ''u1''" "u_id userBia = ''u2''"
  "u_email userAna = ''ana@example.org''" "u_email userBia = ''bia@example.org''"
  "u_cpf userAna = ''52998224725''" "u_cpf userBia = ''11144477735''"
  "a_userId addressOfU1 = ''u1''" "uco_userId consentOfU1 = ''u1''"
  by (simp_all add: userAna_def userBia_def addressOfU1_def consentOfU1_def)

lemma anonymize_Ana:
  "anonymizeUserData dbTwoUsers ''u1'' =
     Inr (dbTwoUsers\<lparr>users := [anonymize userAna, userBia], addresses := [], bankData := [],
                     userConsents := []\<rparr>)"
  by (simp add: anonymizeUserData_def updateUserAnonymized_def deleteAddresses_def
      deleteBankData_def deleteConsents_def dbTwoUsers_fields example_users bankOfU1_user
      anonymizedEmail_def anonymizedCpf_def)

lemma anonymizeUserData_effect_example:
  "find (\<lambda>u. u_id u = ''u1'') (users dbTwoUsers) \<noteq> None
   \<and> \<not> list_ex (\<lambda>u. u_id u \<noteq> ''u1'' \<and> u_email u = anonymizedEmail ''u1'') (users dbTwoUsers)
   \<and> \<not> list_ex (\<lambda>u. u_id u \<noteq> ''u1'' \<and> u_cpf u = anonymizedCpf) (users dbTwoUsers)
   \<and> (\<exists>d'. anonymizeUserData dbTwoUsers ''u1'' = Inr d'
         \<and> map u_id (users d') = [''u1'', ''u2'']
         \<and> map u_cpf (users d') = [''00000000000'', ''11144477735'']
         \<and> map u_email (users d') = [''anonimizado_u1@example.com'', ''bia@example.org'']
         \<and> addresses d' = [] \<and> bankData d' = [] \<and> userConsents d' = []
         \<and> orders d' = [orderOfU1] \<and> commissions d' = [commissionOfU1])"
proof -
  have h: "find (\<lambda>u. u_id u = ''u1'') (users dbTwoUsers) \<noteq> None
   \<and> \<not> list_ex (\<lambda>u. u_id u \<noteq> ''u1'' \<and> u_email u = anonymizedEmail ''u1'') (users dbTwoUsers)
   \<and> \<not> list_ex (\<lambda>u. u_id u \<noteq> ''u1'' \<and> u_cpf u = anonymizedCpf) (users dbTwoUsers)"
    by (simp add: dbTwoUsers_fields example_users anonymizedEmail_def anonymizedCpf_def)
  let ?d' = "dbTwoUsers\<lparr>users := [anonymize userAna, userBia], addresses := [], bankData := [],
                     userConsents := []\<rparr>"
  note t = anonymizeUserData_effect [where d = dbTwoUsers and userId = "''u1''" and d' = ?d']
  from t anonymize_Ana have
    "map u_id (users ?d') = map u_id (users dbTwoUsers)"
    "orders ?d' = orders dbTwoUsers" "commissions ?d' = commissions dbTwoUsers"
    "addresses ?d' = filter (\<lambda>a. a_userId a \<noteq> ''u1'') (addresses dbTwoUsers)"
    by blast+
  then show ?thesis
    using h anonymize_Ana
    by (simp add: dbTwoUsers_fields example_users anonymize_fields)
qed

lemma canErase_iff:
  "allowed (canEraseUserData now d userId) \<longleftrightarrow>
     activeSubscription d userId = None \<and> pendingWithdrawals d userId = []
     \<and> taxObligations now d userId = []"
  by (simp add: canEraseUserData_def)

lemma canErase_Ana: "allowed (canEraseUserData 1000 (dbTwoUsers\<lparr>dataSubjectRequests := x\<rparr>) ''u1'')"
  by (simp add: canErase_iff activeSubscription_def pendingWithdrawals_def taxObligations_def
      dbTwoUsers_fields)

lemma canErase_requests [simp]:
  "canEraseUserData now (d\<lparr>dataSubjectRequests := x\<rparr>) userId = canEraseUserData now d userId"
  by (simp add: canEraseUserData_def activeSubscription_def pendingWithdrawals_def
      taxObligations_def)

lemma anonymizeUserData_requests:
  "anonymizeUserData (d\<lparr>dataSubjectRequests := x\<rparr>) userId =
     (case anonymizeUserData d userId of
        Inl e \<Rightarrow> Inl e
      | Inr d' \<Rightarrow> Inr (d'\<lparr>dataSubjectRequests := x\<rparr>))"
  by (simp add: anonymizeUserData_def updateUserAnonymized_def deleteAddresses_def
      deleteBankData_def deleteConsents_def)

lemma map_fresh:
  assumes "cuid \<notin> set (map dsr_id rs)"
  shows "map (\<lambda>r. if dsr_id r = cuid then f r else r) rs = rs"
  using assms by (induction rs) auto

lemma updateRequestStatus_new:
  assumes "cuid \<notin> set (map dsr_id rs)" "dsr_id request = cuid"
    and "dataSubjectRequests d1 = rs @ [request]"
  shows "updateRequestStatus now d1 cuid st adminId nts =
     Inr (d1\<lparr>dataSubjectRequests := rs @
            [request\<lparr>dsr_status := st,
                     dsr_processedAt := (if st = D_COMPLETED then Some now
                                          else dsr_processedAt request),
                     dsr_adminId := Some adminId,
                     dsr_adminNotes := (case nts of None \<Rightarrow> dsr_adminNotes request
                                        | Some n \<Rightarrow> Some n)\<rparr>]\<rparr>)"
  using assms
  by (simp add: updateRequestStatus_def find_append map_fresh split: option.splits)

text \<open>The request row the operation creates, and the three outcomes of the operation.\<close>

lemma processErasure_outcomes:
  assumes fresh: "cuid \<notin> set (map dsr_id (dataSubjectRequests d))"
  shows "processErasureRequest now cuid backupPath d userId adminId rsn =
     (let request = \<lparr>dsr_id = cuid, dsr_userId = userId, dsr_type = ERASURE,
                      dsr_status = D_PENDING, dsr_requestedAt = now, dsr_processedAt = None,
                      dsr_adminId = None, dsr_adminNotes = None\<rparr>;
          canErase = canEraseUserData now d userId
      in if \<not> allowed canErase then
           (d\<lparr>dataSubjectRequests := dataSubjectRequests d @
                [request\<lparr>dsr_status := D_REJECTED, dsr_adminId := Some adminId,
                         dsr_adminNotes := reason canErase\<rparr>]\<rparr>,
            Inl (newError (case reason canErase of None \<Rightarrow> [] | Some t \<Rightarrow> t)))
         else
           (case anonymizeUserData d userId of
              Inl e \<Rightarrow> (d\<lparr>dataSubjectRequests := dataSubjectRequests d @ [request]\<rparr>, Inl e)
            | Inr d' \<Rightarrow>
                (logErasure now
                   (d'\<lparr>dataSubjectRequests := dataSubjectRequests d @
                        [request\<lparr>dsr_status := D_COMPLETED, dsr_processedAt := Some now,
                                 dsr_adminId := Some adminId, dsr_adminNotes := rsn\<rparr>]\<rparr>)
                   userId adminId rsn backupPath,
                 Inr ())))"
proof -
  let ?request = "\<lparr>dsr_id = cuid, dsr_userId = userId, dsr_type = ERASURE,
                      dsr_status = D_PENDING, dsr_requestedAt = now, dsr_processedAt = None,
                      dsr_adminId = None, dsr_adminNotes = None\<rparr>"
  let ?d1 = "d\<lparr>dataSubjectRequests := dataSubjectRequests d @ [?request]\<rparr>"
  have c: "createDataSubjectRequest now cuid d userId ERASURE = Inr (?d1, ?request)"
    using fresh by (simp add: createDataSubjectRequest_def Let_def)
  have rej: "updateRequestStatus now ?d1 cuid D_REJECTED adminId nts =
     Inr (?d1\<lparr>dataSubjectRequests := dataSubjectRequests d @
            [?request\<lparr>dsr_status := D_REJECTED, dsr_adminId := Some adminId,
                     dsr_adminNotes := (case nts of None \<Rightarrow> None | Some n \<Rightarrow> Some n)\<rparr>]\<rparr>)" for nts
    using updateRequestStatus_new [OF fresh, of ?request ?d1 now D_REJECTED adminId nts]
    by (cases nts) simp_all
  have opt: "(case nts of None \<Rightarrow> None | Some n \<Rightarrow> Some n) = nts" for nts :: "string option"
    by (cases nts) auto
  show ?thesis
  proof (cases "allowed (canEraseUserData now d userId)")
    case False
    then show ?thesis
      by (simp add: processErasureRequest_def c rej opt Let_def)
  next
    case True
    show ?thesis
    proof (cases "anonymizeUserData d userId")
      case (Inl e)
      with True show ?thesis
        by (simp add: processErasureRequest_def c anonymizeUserData_requests Let_def)
    next
      case (Inr d')
      let ?d2 = "d'\<lparr>dataSubjectRequests := dataSubjectRequests d @ [?request]\<rparr>"
      have compl: "updateRequestStatus now ?d2 cuid D_COMPLETED adminId rsn =
         Inr (?d2\<lparr>dataSubjectRequests := dataSubjectRequests d @
            [?request\<lparr>dsr_status := D_COMPLETED, dsr_processedAt := Some now,
                     dsr_adminId := Some adminId, dsr_adminNotes := rsn\<rparr>]\<rparr>)"
        using updateRequestStatus_new [OF fresh, of ?request ?d2 now D_COMPLETED adminId rsn]
        by (cases rsn) simp_all
      from True Inr show ?thesis
        by (simp add: processErasureRequest_def c anonymizeUserData_requests compl Let_def)
    qed
  qed
qed

text \<open>
  What C5 says of the decision holds: with a new request id, the operation rejects, that
  is marks the request REJECTED, throws and leaves every other table alone, exactly
  when one of the three exclusions holds.
\<close>

lemma processErasure_rejects_iff:
  assumes fresh: "cuid \<notin> set (map dsr_id (dataSubjectRequests d))"
  shows "((\<exists>request. dataSubjectRequests
              (fst (processErasureRequest now cuid backupPath d userId adminId rsn)) =
                dataSubjectRequests d @ [request]
             \<and> dsr_id request = cuid \<and> dsr_status request = D_REJECTED)
          \<and> isl (snd (processErasureRequest now cuid backupPath d userId adminId rsn))
          \<and> users (fst (processErasureRequest now cuid backupPath d userId adminId rsn)) = users d
          \<and> addresses (fst (processErasureRequest now cuid backupPath d userId adminId rsn))
              = addresses d
          \<and> bankData (fst (processErasureRequest now cuid backupPath d userId adminId rsn))
              = bankData d
          \<and> userConsents (fst (processErasureRequest now cuid backupPath d userId adminId rsn))
              = userConsents d)
         \<longleftrightarrow> activeSubscription d userId \<noteq> None \<or> pendingWithdrawals d userId \<noteq> []
               \<or> taxObligations now d userId \<noteq> []"
proof (cases "allowed (canEraseUserData now d userId)")
  case False
  then show ?thesis
    by (simp add: processErasure_outcomes [OF fresh] Let_def canErase_iff)
next
  case True
  show ?thesis
  proof (cases "anonymizeUserData d userId")
    case (Inl e)
    with True show ?thesis
      by (simp add: processErasure_outcomes [OF fresh] Let_def canErase_iff)
  next
    case (Inr d')
    with True show ?thesis
      by (simp add: processErasure_outcomes [OF fresh] Let_def canErase_iff logErasure_def)
  qed
qed

lemma processErasure_completes:
  assumes fresh: "cuid \<notin> set (map dsr_id (dataSubjectRequests d))"
    and free: "activeSubscription d userId = None" "pendingWithdrawals d userId = []"
      "taxObligations now d userId = []"
    and commit: "anonymizeUserData d userId = Inr d'"
  shows "snd (processErasureRequest now cuid backupPath d userId adminId rsn) = Inr ()
     \<and> users (fst (processErasureRequest now cuid backupPath d userId adminId rsn)) = users d'
     \<and> (\<exists>request. dataSubjectRequests
            (fst (processErasureRequest now cuid backupPath d userId adminId rsn)) =
              dataSubjectRequests d @ [request]
          \<and> dsr_id request = cuid \<and> dsr_status request = D_COMPLETED)"
  using free commit
  by (simp add: processErasure_outcomes [OF fresh] Let_def canErase_iff logErasure_def)

subsection \<open>Two erasures in a row\<close>

lemma dbAnaErased_fields:
  "users dbAnaErased = [anonymize userAna, userBia]"
  "dataSubjectRequests dbAnaErased =
     [\<lparr>dsr_id = ''r1'', dsr_userId = ''u1'', dsr_type = ERASURE, dsr_status = D_COMPLETED,
       dsr_requestedAt = 1000, dsr_processedAt = Some 1000, dsr_adminId = Some ''adm'',
       dsr_adminNotes = None\<rparr>]"
  "subscriptions dbAnaErased = []" "billingHistory dbAnaErased = []"
  "withdrawalRequests dbAnaErased = []"
  by (simp_all add: dbAnaErased_def processErasure_outcomes Let_def dbTwoUsers_fields
      canErase_iff activeSubscription_def pendingWithdrawals_def taxObligations_def
      anonymize_Ana logErasure_def)

lemma anonymize_Bia:
  "anonymizeUserData dbAnaErased ''u2'' = Inl (prismaKnownError ''P2002'' (Some (JArr [JStr ''cpf''])))"
  by (simp add: anonymizeUserData_def updateUserAnonymized_def dbAnaErased_fields example_users
      anonymize_fields anonymizedEmail_def anonymizedCpf_def)

text \<open>
  C5 at a failing input. After the erasure of u1, none of the three exclusions holds for
  u2, yet the erasure of u2 does not complete: the CPF sentinel is a constant and the
  column is unique, so the update of the transaction is refused with \<open>P2002\<close>, the
  error is rethrown, the request r2 stays PENDING and u2 keeps its data.
\<close>

theorem second_erasure_is_refused:
  "activeSubscription dbAnaErased ''u2'' = None
   \<and> pendingWithdrawals dbAnaErased ''u2'' = []
   \<and> taxObligations 2000 dbAnaErased ''u2'' = []
   \<and> map u_cpf (users dbAnaErased) = [''00000000000'', ''11144477735'']
   \<and> snd (processErasureRequest 2000 ''r2'' ''/backups/u2.enc'' dbAnaErased ''u2'' ''adm'' None) =
       Inl (prismaKnownError ''P2002'' (Some (JArr [JStr ''cpf''])))
   \<and> map dsr_id (dataSubjectRequests dbBiaRefused) = [''r1'', ''r2'']
   \<and> map dsr_status (dataSubjectRequests dbBiaRefused) = [D_COMPLETED, D_PENDING]
   \<and> users dbBiaRefused = users dbAnaErased"
  by (simp add: dbBiaRefused_def processErasure_outcomes Let_def dbAnaErased_fields
      canErase_iff activeSubscription_def pendingWithdrawals_def taxObligations_def
      anonymize_Bia anonymize_fields example_users)

lemma dbBiaOnFile_fields:
  "users dbBiaOnFile = [anonymize userAna, userBia]"
  "addresses dbBiaOnFile = [addressOfU2]" "bankData dbBiaOnFile = [bankOfU2]"
  "userConsents dbBiaOnFile = [consentOfU2]"
  "dataSubjectRequests dbBiaOnFile = dataSubjectRequests dbAnaErased"
  "subscriptions dbBiaOnFile = []" "billingHistory dbBiaOnFile = []"
  "withdrawalRequests dbBiaOnFile = []"
  by (simp_all add: dbBiaOnFile_def dbAnaErased_fields)

lemma anonymize_Bia_on_file:
  "anonymizeUserData dbBiaOnFile ''u2'' =
     Inl (prismaKnownError ''P2002'' (Some (JArr [JStr ''cpf''])))"
  by (simp add: anonymizeUserData_def updateUserAnonymized_def dbBiaOnFile_fields example_users
      anonymize_fields anonymizedEmail_def anonymizedCpf_def)

text \<open>
  C6 at a failing input. The erasure of u1 has been carried out, and u2, for whom none
  of the three exclusions holds, has an address, bank data and a consent on file. The
  admin approves the erasure of u2. The update that is the first statement of the
  transaction writes the constant CPF sentinel, which the row of u1 already holds in a
  unique column; it is refused with \<open>P2002\<close> and the transaction is rolled back. The
  row of u2 keeps its name, e-mail and CPF, and the address, bank data and consent of
  u2 are still there: nothing is overwritten and nothing is deleted.
\<close>

theorem second_erasure_overwrites_nothing:
  "allowed (canEraseUserData 2000 dbBiaOnFile ''u2'')
   \<and> map u_cpf (users dbBiaOnFile) = [''00000000000'', ''11144477735'']
   \<and> snd (processErasureRequest 2000 ''r2'' ''/backups/u2.enc'' dbBiaOnFile ''u2'' ''adm'' None) =
       Inl (prismaKnownError ''P2002'' (Some (JArr [JStr ''cpf''])))
   \<and> users dbBiaKept = [anonymize userAna, userBia]
   \<and> u_id userBia = ''u2'' \<and> u_firstName userBia = ''Bia'' \<and> u_lastName userBia = ''Lima''
   \<and> u_email userBia = ''bia@example.org'' \<and> u_cpf userBia = ''11144477735''
   \<and> addresses dbBiaKept = [addressOfU2] \<and> a_userId addressOfU2 = ''u2''
   \<and> bankData dbBiaKept = [bankOfU2] \<and> bd_userId bankOfU2 = ''u2''
   \<and> userConsents dbBiaKept = [consentOfU2] \<and> uco_userId consentOfU2 = ''u2''"
  by (simp add: dbBiaKept_def processErasure_outcomes Let_def dbBiaOnFile_fields
      dbAnaErased_fields canErase_iff activeSubscription_def pendingWithdrawals_def
      taxObligations_def anonymize_Bia_on_file anonymize_fields example_users)
     (simp add: userBia_def addressOfU2_def bankOfU2_def consentOfU2_def)

section \<open>Registration\<close>

lemma pickReferralCode_draws:
  "c \<in> set draws \<Longrightarrow> find (\<lambda>u. u_referralCode u = c) (users d) = None \<Longrightarrow>
     pickReferralCode d draws \<noteq> None"
  by (induction draws) auto

lemma duplicateError_409: "duplicateError d email cpf = Some e \<Longrightarrow> failsWith (Inl e) 409"
  by (auto simp: duplicateError_def failsWith_createError split: option.splits if_splits)

lemma failsWith_validationError: "failsWith (Inl validationError) 400"
  by (simp add: failsWith_def status_errorHandler classify_def validationError_def)

lemma register_unknown_referrer:
  assumes "rb_referralCode b = Some cde" "cde \<noteq> []"
    and "find (\<lambda>u. u_referralCode u = toUpperCase cde) (users d) = None"
    and "pickReferralCode d draws \<noteq> None"
  shows "\<exists>r. register joi toUpperCase hashPassword today cuid draws d b = Some (d, r)
           \<and> (failsWith r 400
                \<or> (duplicateError d (rb_email b) (cleanCPF (rb_cpf b)) \<noteq> None \<and> failsWith r 409))"
  using assms
  by (auto simp: register_def resolveReferrer_def Let_def failsWith_createError
        failsWith_validationError duplicateError_409 split: option.splits)

lemma register_created:
  assumes "register joi toUpperCase hashPassword today cuid draws d b = Some (d', Inr u)"
  shows "d' = d\<lparr>users := users d @ [u]\<rparr>
       \<and> resolveReferrer toUpperCase d (rb_referralCode b) = Inr (u_referredById u)
       \<and> u_id u = cuid \<and> u_email u = rb_email b"
  using assms
  by (auto simp: register_def Let_def split: option.splits sum.splits if_splits)

lemma example_codes:
  "u_referralCode userAna = ''A1B2C3D4''" "u_referralCode userBia = ''E5F6A7B8''"
  by (simp_all add: userAna_def userBia_def)

lemma body_fields:
  "rb_email bodyTaken = ''ana@example.org''" "rb_referralCode bodyTaken = Some ''zzzz9999''"
  "rb_cpf bodyTaken = ''390.533.447-05''"
  "rb_birthDate bodyTaken = \<lparr>year = 1995, month = 3, day = 9\<rparr>"
  "rb_email bodyNew = ''caio@example.org''" "rb_referralCode bodyNew = Some ''a1b2c3d4''"
  "rb_cpf bodyNew = ''390.533.447-05''"
  "rb_birthDate bodyNew = \<lparr>year = 1995, month = 3, day = 9\<rparr>"
  by (simp_all add: bodyTaken_def bodyNew_def)

lemma example_upper:
  "asciiUpperCase ''zzzz9999'' = ''ZZZZ9999''" "asciiUpperCase ''a1b2c3d4'' = ''A1B2C3D4''"
  by (simp_all add: asciiUpperCase_def asciiUpperChar_def)

lemma example_cpf: "cleanCPF ''390.533.447-05'' = ''39053344705''"
  by (simp add: cleanCPF_def)

lemma example_age: "isMinimumAge day2024 \<lparr>year = 1995, month = 3, day = 9\<rparr>"
  by (simp add: isMinimumAge_def calculateAge_def day2024_def)

text \<open>
  C7, as stated, fails: the body carries a referral code that no user has, but also the
  e-mail of u1; the duplicate test comes first and the answer is 409, not 400.
\<close>

theorem register_referral_counterexample:
  "rb_referralCode bodyTaken = Some ''zzzz9999''
   \<and> asciiUpperCase ''zzzz9999'' = ''ZZZZ9999''
   \<and> map u_referralCode (users dbTwoUsers) = [''A1B2C3D4'', ''E5F6A7B8'']
   \<and> register joiAny asciiUpperCase hashToy day2024 ''u3'' [''C0FFEE00''] dbTwoUsers bodyTaken =
       Some (dbTwoUsers,
             Inl (createError (''Este email j'' @ a_acute @ '' est'' @ a_acute
                               @ '' cadastrado'') 409))
   \<and> http_status (errorHandler None
        (createError (''Este email j'' @ a_acute @ '' est'' @ a_acute @ '' cadastrado'') 409))
       = 409"
  by (simp add: register_def joiAny_def body_fields example_upper example_cpf example_age
      duplicateError_def dbTwoUsers_fields example_users example_codes
      status_errorHandler classify_createError)

text \<open>
  C7, amended. If a referral code is supplied (present and not the empty string) and,
  uppercased, is the code of no user, then, once the loop that draws the new user's own
  code has ended, registration fails and creates no user: with status 400, unless the
  e-mail or CPF is already registered, which is answered first, with 409. When a user
  is created, it is the one row added to the table; if the supplied code is that of a
  user, \<open>referredById\<close> of the new user is that user's id, and if no code is supplied
  it is null.
\<close>

theorem register_referral:
  "(rb_referralCode b = Some cde \<and> cde \<noteq> []
      \<and> find (\<lambda>u. u_referralCode u = toUpperCase cde) (users d) = None
      \<and> pickReferralCode d draws \<noteq> None \<longrightarrow>
      (\<exists>r. register joi toUpperCase hashPassword today cuid draws d b = Some (d, r)
           \<and> (failsWith r 400
                \<or> (duplicateError d (rb_email b) (cleanCPF (rb_cpf b)) \<noteq> None
                    \<and> failsWith r 409))))
   \<and> (register joi toUpperCase hashPassword today cuid draws d b = Some (d', Inr u) \<longrightarrow>
        d' = d\<lparr>users := users d @ [u]\<rparr>
        \<and> (\<forall>referrer. rb_referralCode b = Some cde \<and> cde \<noteq> []
              \<and> find (\<lambda>u. u_referralCode u = toUpperCase cde) (users d) = Some referrer
              \<longrightarrow> u_referredById u = Some (u_id referrer))
        \<and> (rb_referralCode b = None \<or> rb_referralCode b = Some [] \<longrightarrow> u_referredById u = None))"
proof (intro conjI impI allI)
  assume "rb_referralCode b = Some cde \<and> cde \<noteq> []
      \<and> find (\<lambda>u. u_referralCode u = toUpperCase cde) (users d) = None
      \<and> pickReferralCode d draws \<noteq> None"
  then show "\<exists>r. register joi toUpperCase hashPassword today cuid draws d b = Some (d, r)
           \<and> (failsWith r 400
                \<or> (duplicateError d (rb_email b) (cleanCPF (rb_cpf b)) \<noteq> None
                    \<and> failsWith r 409))"
    using register_unknown_referrer [where b = b and cde = cde and d = d and draws = draws
        and toUpperCase = toUpperCase and joi = joi and hashPassword = hashPassword
        and today = today and cuid = cuid]
    by blast
next
  assume a: "register joi toUpperCase hashPassword today cuid draws d b = Some (d', Inr u)"
  from register_created [OF a] show "d' = d\<lparr>users := users d @ [u]\<rparr>" by simp
next
  fix referrer
  assume a: "register joi toUpperCase hashPassword today cuid draws d b = Some (d', Inr u)"
    and r: "rb_referralCode b = Some cde \<and> cde \<noteq> []
              \<and> find (\<lambda>u. u_referralCode u = toUpperCase cde) (users d) = Some referrer"
  from register_created [OF a] r show "u_referredById u = Some (u_id referrer)"
    by (auto simp: resolveReferrer_def)
next
  assume a: "register joi toUpperCase hashPassword today cuid draws d b = Some (d', Inr u)"
    and r: "rb_referralCode b = None \<or> rb_referralCode b = Some []"
  from register_created [OF a] r show "u_referredById u = None"
    by (auto simp: resolveReferrer_def)
qed

theorem register_referral_witness:
  "rb_referralCode bodyNew = Some ''a1b2c3d4'' \<and> ''a1b2c3d4'' \<noteq> []
   \<and> find (\<lambda>u. u_referralCode u = asciiUpperCase ''a1b2c3d4'') (users dbTwoUsers) = Some userAna
   \<and> (\<exists>u. register joiAny asciiUpperCase hashToy day2024 ''u3'' [''C0FFEE00''] dbTwoUsers bodyNew =
             Some (dbTwoUsers\<lparr>users := [userAna, userBia, u]\<rparr>, Inr u)
          \<and> u_referredById u = Some ''u1'')
   \<and> rb_referralCode (bodyNew\<lparr>rb_referralCode := Some ''zzzz9999''\<rparr>) = Some ''zzzz9999''
   \<and> find (\<lambda>u. u_referralCode u = asciiUpperCase ''zzzz9999'') (users dbTwoUsers) = None
   \<and> pickReferralCode dbTwoUsers [''C0FFEE00''] \<noteq> None
   \<and> duplicateError dbTwoUsers ''caio@example.org'' (cleanCPF ''390.533.447-05'') = None
   \<and> (\<exists>r. register joiAny asciiUpperCase hashToy day2024 ''u3'' [''C0FFEE00''] dbTwoUsers
             (bodyNew\<lparr>rb_referralCode := Some ''zzzz9999''\<rparr>) = Some (dbTwoUsers, r)
          \<and> failsWith r 400)"
proof -
  have f: "find (\<lambda>u. u_referralCode u = asciiUpperCase ''a1b2c3d4'') (users dbTwoUsers) = Some userAna"
    by (simp add: example_upper dbTwoUsers_fields example_codes)
  have n: "find (\<lambda>u. u_referralCode u = asciiUpperCase ''zzzz9999'') (users dbTwoUsers) = None"
    by (simp add: example_upper dbTwoUsers_fields example_codes)
  have p: "pickReferralCode dbTwoUsers [''C0FFEE00''] \<noteq> None"
    by (simp add: dbTwoUsers_fields example_codes)
  have dup: "duplicateError dbTwoUsers ''caio@example.org'' (cleanCPF ''390.533.447-05'') = None"
    by (simp add: duplicateError_def example_cpf dbTwoUsers_fields example_users)
  let ?u = "\<lparr>u_id = ''u3'', u_email = ''caio@example.org'', u_cpf = ''39053344705'',
       u_firstName = ''Caio'', u_lastName = ''Melo'', u_phone = None,
       u_birthDate = Some \<lparr>year = 1995, month = 3, day = 9\<rparr>,
       u_password = Some (hashToy ''Segredo#1''), u_emailVerified = False, u_isActive = True,
       u_referralCode = ''C0FFEE00'', u_referredById = Some ''u1''\<rparr>"
  have ok: "register joiAny asciiUpperCase hashToy day2024 ''u3'' [''C0FFEE00''] dbTwoUsers bodyNew =
      Some (dbTwoUsers\<lparr>users := users dbTwoUsers @ [?u]\<rparr>, Inr ?u)"
    by (simp add: register_def joiAny_def body_fields example_upper example_cpf example_age
        duplicateError_def resolveReferrer_def dbTwoUsers_fields example_users example_codes
        Let_def bodyNew_def)
  note t1 = register_referral [where b = bodyNew and cde = "''a1b2c3d4''" and d = dbTwoUsers
      and draws = "[''C0FFEE00'']" and joi = joiAny and toUpperCase = asciiUpperCase
      and hashPassword = hashToy
      and today = day2024 and cuid = "''u3''"
      and d' = "dbTwoUsers\<lparr>users := users dbTwoUsers @ [?u]\<rparr>" and u = ?u]
  from t1 ok f have r1: "u_referredById ?u = Some (u_id userAna)"
    by (simp add: body_fields)
  note t2 = register_referral [where b = "bodyNew\<lparr>rb_referralCode := Some ''zzzz9999''\<rparr>"
      and cde = "''zzzz9999''" and d = dbTwoUsers
      and draws = "[''C0FFEE00'']" and joi = joiAny and toUpperCase = asciiUpperCase
      and hashPassword = hashToy
      and today = day2024 and cuid = "''u3''"]
  from t2 n p dup have r2: "\<exists>r. register joiAny asciiUpperCase hashToy day2024 ''u3'' [''C0FFEE00''] dbTwoUsers
             (bodyNew\<lparr>rb_referralCode := Some ''zzzz9999''\<rparr>) = Some (dbTwoUsers, r)
          \<and> failsWith r 400"
    by (simp add: body_fields)
  have ex: "\<exists>u. register joiAny asciiUpperCase hashToy day2024 ''u3'' [''C0FFEE00''] dbTwoUsers bodyNew =
             Some (dbTwoUsers\<lparr>users := [userAna, userBia, u]\<rparr>, Inr u)
          \<and> u_referredById u = Some ''u1''"
    using ok r1 by (intro exI [of _ ?u]) (simp add: dbTwoUsers_fields example_users)
  show ?thesis using f n p dup ex r2 by (simp add: body_fields)
qed

end
